theory Spec2Isabelle
  imports Complex_Main
begin

section \<open>Emission + Room Lumens + Color Temp: the add-on's calculations\<close>

text \<open>
  A shallow embedding of \<^verbatim>\<open>src/__init__.py\<close>, the add-on's only source file.
  \<^item> Python floats are read as real numbers: no rounding, no overflow, no 32-bit storage
    of the host's float properties. The one float value that is no real number and that
    the code can produce from finite inputs, \<^verbatim>\<open>nan\<close>, is kept as a value of its own
    (\<open>NaN\<close> below), with the comparisons and the arithmetic Python gives it, in every
    property the operations below write. The geometry and the properties they only read
    (\<^verbatim>\<open>area\<close>, \<^verbatim>\<open>room_height\<close> before it is measured, \<^verbatim>\<open>num_lights\<close>)
    are taken to hold numbers.
  \<^item> Exceptions are values of \<open>py_exn\<close>; an operator's \<^verbatim>\<open>execute\<close> returns
    a value of \<open>exec\<close>.
  \<^item> The scene is a store: objects and materials by name, pointer properties holding
    names.
  \<^item> A property declared with \<^verbatim>\<open>min=m\<close> stores \<open>m\<close> when a smaller value is
    assigned to it, as the host documents for \<^verbatim>\<open>bpy.props\<close> (the hard minimum).
  \<^item> What the code calls in the host and in numpy without defining it
    (\<^verbatim>\<open>np.linalg.eig\<close>, the two \<^verbatim>\<open>bpy.ops\<close> calls, which can raise
    RuntimeError, the sockets of a new node, the default node tree) is a parameter, the
    record \<open>host\<close>.
\<close>

subsection \<open>Python values\<close>

datatype py_exn = AttributeError | ZeroDivisionError | ValueError | KeyError | RuntimeError

text \<open>A Python float: a real number or \<^verbatim>\<open>nan\<close>.\<close>

datatype pyfloat = Fin real | NaN

text \<open>\<^verbatim>\<open>a <= b\<close>, \<^verbatim>\<open>a > b\<close>: every comparison with \<^verbatim>\<open>nan\<close> is False.\<close>

fun pf_le :: "pyfloat \<Rightarrow> pyfloat \<Rightarrow> bool" where
  "pf_le (Fin a) (Fin b) = (a \<le> b)"
| "pf_le _ _ = False"

fun pf_gt :: "pyfloat \<Rightarrow> pyfloat \<Rightarrow> bool" where
  "pf_gt (Fin a) (Fin b) = (a > b)"
| "pf_gt _ _ = False"

text \<open>\<^verbatim>\<open>a * b\<close>: \<^verbatim>\<open>nan\<close> times anything is \<^verbatim>\<open>nan\<close>.\<close>

fun pf_mul :: "pyfloat \<Rightarrow> pyfloat \<Rightarrow> pyfloat" where
  "pf_mul (Fin a) (Fin b) = Fin (a * b)"
| "pf_mul _ _ = NaN"

text \<open>
  \<^verbatim>\<open>a / b\<close> of Python floats: division by zero raises ZeroDivisionError (also for a
  \<^verbatim>\<open>nan\<close> numerator), \<^verbatim>\<open>nan\<close> operands give \<^verbatim>\<open>nan\<close> otherwise.
\<close>

fun py_div :: "pyfloat \<Rightarrow> pyfloat \<Rightarrow> py_exn + pyfloat" where
  "py_div a (Fin b) =
     (if b = 0 then Inl ZeroDivisionError
      else (case a of Fin x \<Rightarrow> Inr (Fin (x / b)) | NaN \<Rightarrow> Inr NaN))"
| "py_div a NaN = Inr NaN"

text \<open>
  Assignment to a host property declared with \<^verbatim>\<open>min=m\<close>: the host stores the
  minimum in place of a smaller value (\<^verbatim>\<open>bpy.props.FloatProperty\<close>: a hard
  minimum, an assignment below it silently assigns the minimum); the host's comparison
  is False on \<^verbatim>\<open>nan\<close>, which is stored as it is.
\<close>

definition clamp_min :: "real \<Rightarrow> real \<Rightarrow> real" where
  "clamp_min m v = (if v < m then m else v)"

fun pf_clamp_min :: "real \<Rightarrow> pyfloat \<Rightarrow> pyfloat" where
  "pf_clamp_min m (Fin v) = Fin (clamp_min m v)"
| "pf_clamp_min m NaN = NaN"

subsection \<open>Vectors, matrices and scene objects\<close>

type_synonym vec3 = "real \<times> real \<times> real"
type_synonym row4 = "real \<times> real \<times> real \<times> real"
type_synonym mat4 = "row4 \<times> row4 \<times> row4 \<times> row4"

fun vx :: "vec3 \<Rightarrow> real" where "vx (x, y, z) = x"
fun vy :: "vec3 \<Rightarrow> real" where "vy (x, y, z) = y"
fun vz :: "vec3 \<Rightarrow> real" where "vz (x, y, z) = z"

fun row_apply :: "row4 \<Rightarrow> vec3 \<Rightarrow> real" where
  "row_apply (a, b, c, d) (x, y, z) = a * x + b * y + c * z + d"

text \<open>\<^verbatim>\<open>obj.matrix_world @ v.co\<close>: a 4x4 matrix applied to a 3D point (w = 1).\<close>

fun mat_vec :: "mat4 \<Rightarrow> vec3 \<Rightarrow> vec3" where
  "mat_vec (r0, r1, r2, r3) v = (row_apply r0 v, row_apply r1 v, row_apply r2 v)"

definition identity_matrix :: mat4 where
  "identity_matrix = ((1, 0, 0, 0), (0, 1, 0, 0), (0, 0, 1, 0), (0, 0, 0, 1))"

datatype object_type = MESH | CURVE | SURFACE | META | FONT | ARMATURE | LATTICE
  | EMPTY | LIGHT | CAMERA

text \<open>A face as bmesh shows it: its area (\<^verbatim>\<open>face.calc_area()\<close>) and material slot.\<close>

record face =
  calc_area :: real
  material_index :: nat

text \<open>\<^verbatim>\<open>obj.data\<close> of a mesh object: vertex coordinates (\<^verbatim>\<open>v.co\<close>) and faces.\<close>

record mesh =
  vertices :: "vec3 list"
  faces :: "face list"

text \<open>
  A scene object. \<open>obj_data\<close> is read only where \<open>obj_type\<close> is MESH.
  \<open>active_material\<close> names a material of the store, None when the slot is empty.
\<close>

record bpy_object =
  obj_type :: object_type
  obj_data :: mesh
  matrix_world :: mat4
  active_material_index :: nat
  active_material :: "nat option"

subsection \<open>Utility functions\<close>

text \<open>
  \<^verbatim>\<open>get_active_material_area(obj)\<close>: 0.0 for no object or a non-mesh object, else
  the sum of the areas of the faces whose material index is the active one.
\<close>

definition get_active_material_area :: "bpy_object option \<Rightarrow> real" where
  "get_active_material_area obj =
     (case obj of
        None \<Rightarrow> 0
      | Some ob \<Rightarrow>
          if obj_type ob \<noteq> MESH then 0
          else sum_list (map calc_area
                 (filter (\<lambda>f. material_index f = active_material_index ob)
                    (faces (obj_data ob)))))"

text \<open>Python's \<^verbatim>\<open>max(zs)\<close> and \<^verbatim>\<open>min(zs)\<close> on a non-empty list.\<close>

definition py_max :: "real list \<Rightarrow> real" where
  "py_max xs = fold max (tl xs) (hd xs)"

definition py_min :: "real list \<Rightarrow> real" where
  "py_min xs = fold min (tl xs) (hd xs)"

definition world_zs :: "bpy_object \<Rightarrow> real list" where
  "world_zs ob = map (\<lambda>v. vz (mat_vec (matrix_world ob) v)) (vertices (obj_data ob))"

text \<open>\<^verbatim>\<open>object_height(obj)\<close>.\<close>

definition object_height :: "bpy_object option \<Rightarrow> real" where
  "object_height obj =
     (case obj of
        None \<Rightarrow> 0
      | Some ob \<Rightarrow>
          if obj_type ob \<noteq> MESH then 0
          else (let zs = world_zs ob
                in if zs \<noteq> [] then py_max zs - py_min zs else 0))"

subsection \<open>The property group\<close>

text \<open>The identifiers of the enum properties.\<close>

datatype ler_preset_id = P300 | P250 | P683 | P150 | P100 | P50 | CUSTOM

fun ler_preset_str :: "ler_preset_id \<Rightarrow> string" where
  "ler_preset_str P300 = ''300''"
| "ler_preset_str P250 = ''250''"
| "ler_preset_str P683 = ''683''"
| "ler_preset_str P150 = ''150''"
| "ler_preset_str P100 = ''100''"
| "ler_preset_str P50 = ''50''"
| "ler_preset_str CUSTOM = ''CUSTOM''"

datatype room_area_source_id = AREA_MANUAL | BOUNDING_BOX

datatype height_source_id = HEIGHT_MANUAL | FROM_OBJECT

datatype room_type_id = kitchen_gen | kitchen_task | living_gen | living_read
  | bedroom_gen | bedroom_read | office | workshop | bathroom_gen | bathroom_mirror
  | studio | dining | hallway | laundry | gym | patio

text \<open>
  The en dash of the labels, as its three UTF-8 bytes.
\<close>

definition en_dash :: string where
  "en_dash = [CHR 0xE2, CHR 0x80, CHR 0x93]"

text \<open>The items of \<^verbatim>\<open>room_type\<close>: identifier and label, in the source's order.\<close>

definition room_type_items :: "(room_type_id \<times> string) list" where
  "room_type_items =
    [(kitchen_gen, ''Kitchen '' @ en_dash @ '' General (250 Lux)''),
     (kitchen_task, ''Kitchen '' @ en_dash @ '' Task (500 Lux)''),
     (living_gen, ''Living Room '' @ en_dash @ '' General (150 Lux)''),
     (living_read, ''Living Room '' @ en_dash @ '' Reading (400 Lux)''),
     (bedroom_gen, ''Bedroom '' @ en_dash @ '' General (100 Lux)''),
     (bedroom_read, ''Bedroom '' @ en_dash @ '' Reading (300 Lux)''),
     (office, ''Office (400 Lux)''),
     (workshop, ''Workshop (500 Lux)''),
     (bathroom_gen, ''Bathroom '' @ en_dash @ '' General (250 Lux)''),
     (bathroom_mirror, ''Bathroom '' @ en_dash @ '' Mirror (500 Lux)''),
     (studio, ''Studio/Art Room (750 Lux)''),
     (dining, ''Dining Room (150 Lux)''),
     (hallway, ''Hallway (100 Lux)''),
     (laundry, ''Laundry (300 Lux)''),
     (gym, ''Gym (300 Lux)''),
     (patio, ''Outdoor Patio (100 Lux)'')]"

text \<open>
  \<^verbatim>\<open>MaterialEmissionProperties\<close>. The pointer properties hold the name of an
  object of the store. The float properties that can come to hold \<^verbatim>\<open>nan\<close>
  (the room area, the lumens computed from it and what is computed from those) are
  \<open>pyfloat\<close>, and so is \<^verbatim>\<open>ler\<close>, which the user edits; the others are written
  only from real numbers, and the user's edits of them are not modelled.
\<close>

record MaterialEmissionProperties =
  lumens :: pyfloat
  ler_preset :: ler_preset_id
  ler :: pyfloat
  auto_area :: bool
  area :: real
  num_lights :: int
  strength :: pyfloat
  room_area_source :: room_area_source_id
  room_area :: pyfloat
  wall_a :: "nat option"
  wall_b :: "nat option"
  height_source :: height_source_id
  height_object :: "nat option"
  room_height :: real
  room_type :: room_type_id
  lumens_min :: pyfloat
  lumens_avg :: pyfloat
  lumens_max :: pyfloat
  temp_min :: int
  temp_avg :: int
  temp_max :: int

text \<open>
  Assignments to the properties declared with a minimum: \<^verbatim>\<open>lumens\<close> (min=0),
  \<^verbatim>\<open>ler\<close> (min=1), \<^verbatim>\<open>room_area\<close> (min=1), \<^verbatim>\<open>room_height\<close> (min=0.5).
\<close>

definition set_lumens :: "pyfloat \<Rightarrow> MaterialEmissionProperties \<Rightarrow> MaterialEmissionProperties" where
  "set_lumens v p = p\<lparr>lumens := pf_clamp_min 0 v\<rparr>"

definition set_ler :: "pyfloat \<Rightarrow> MaterialEmissionProperties \<Rightarrow> MaterialEmissionProperties" where
  "set_ler v p = p\<lparr>ler := pf_clamp_min 1 v\<rparr>"

definition set_room_area :: "pyfloat \<Rightarrow> MaterialEmissionProperties \<Rightarrow> MaterialEmissionProperties" where
  "set_room_area v p = p\<lparr>room_area := pf_clamp_min 1 v\<rparr>"

definition set_room_height :: "real \<Rightarrow> MaterialEmissionProperties \<Rightarrow> MaterialEmissionProperties" where
  "set_room_height v p = p\<lparr>room_height := clamp_min (1 / 2) v\<rparr>"

text \<open>
  \<^verbatim>\<open>float(s)\<close> for a string of decimal digits; any other string is taken to raise
  ValueError (the strings it is called on are the preset identifiers).
\<close>

definition digit_val :: "char \<Rightarrow> nat" where
  "digit_val c = of_char c - of_char (CHR ''0'')"

definition is_digit :: "char \<Rightarrow> bool" where
  "is_digit c = ((of_char (CHR ''0'') :: nat) \<le> of_char c \<and> (of_char c :: nat) \<le> of_char (CHR ''9''))"

definition digits_val :: "string \<Rightarrow> nat" where
  "digits_val s = foldl (\<lambda>n c. 10 * n + digit_val c) 0 s"

definition py_float :: "string \<Rightarrow> py_exn + real" where
  "py_float s = (if s \<noteq> [] \<and> list_all is_digit s then Inr (real (digits_val s))
                 else Inl ValueError)"

text \<open>\<^verbatim>\<open>update_ler_from_preset(self, context)\<close>.\<close>

definition update_ler_from_preset :: "MaterialEmissionProperties \<Rightarrow> py_exn + MaterialEmissionProperties" where
  "update_ler_from_preset self =
     (if ler_preset self \<noteq> CUSTOM then
        (case py_float (ler_preset_str (ler_preset self)) of
           Inl e \<Rightarrow> Inl e
         | Inr v \<Rightarrow> Inr (set_ler (Fin v) self))
      else Inr self)"

subsection \<open>Materials and their shader nodes\<close>

datatype node_type = OUTPUT_MATERIAL | BSDF_PRINCIPLED | EMISSION | BLACKBODY
  | BSDF_DIFFUSE | BSDF_GLASS | MIX_SHADER | TEX_IMAGE | RGB | VALUE

text \<open>\<^verbatim>\<open>any(output.type == 'SHADER' for output in node.outputs)\<close>, by node type.\<close>

fun has_shader_output :: "node_type \<Rightarrow> bool" where
  "has_shader_output BSDF_PRINCIPLED = True"
| "has_shader_output EMISSION = True"
| "has_shader_output BSDF_DIFFUSE = True"
| "has_shader_output BSDF_GLASS = True"
| "has_shader_output MIX_SHADER = True"
| "has_shader_output _ = False"

text \<open>
  A node: its name (unique in the tree), type, location and the \<^verbatim>\<open>default_value\<close>
  of its float input sockets by socket name. A link joins an output socket to an input
  socket.
\<close>

record node =
  node_name :: nat
  ntype :: node_type
  location :: "real \<times> real"
  inputs :: "(string \<times> pyfloat) list"

record link =
  from_node :: nat
  from_socket :: string
  to_node :: nat
  to_socket :: string

record node_tree =
  nodes :: "node list"
  links :: "link list"

record bpy_material =
  emission_props :: MaterialEmissionProperties
  use_nodes :: bool
  mat_node_tree :: "node_tree option"

text \<open>
  The scene: objects and materials by name, the selection, the active object of the view
  layer (\<^verbatim>\<open>context.active_object\<close>) and \<^verbatim>\<open>context.object\<close>.
\<close>

record blend =
  objects :: "nat \<Rightarrow> bpy_object"
  materials :: "nat \<Rightarrow> bpy_material"
  selected_objects :: "nat set"
  active_object :: "nat option"
  context_object :: "nat option"

text \<open>
  What the code takes from the host and from numpy: \<^verbatim>\<open>np.linalg.eig\<close> (eigenvalues
  and the matrix whose columns are the eigenvectors); whether
  \<^verbatim>\<open>bpy.ops.object.select_all\<close> can run in a scene (its poll: it raises RuntimeError
  outside object mode); \<^verbatim>\<open>bpy.ops.object.transform_apply(scale=True)\<close> on the one
  selected object, which gives the object with its scale applied or raises (RuntimeError
  for a mesh with several users); the float input sockets a new node of a type comes
  with; and the node tree the host gives a material when \<^verbatim>\<open>use_nodes\<close> is first
  set.
\<close>

type_synonym mat3 = "vec3 \<times> vec3 \<times> vec3"

record host =
  linalg_eig :: "mat3 \<Rightarrow> vec3 \<times> mat3"
  select_all_poll :: "blend \<Rightarrow> bool"
  transform_apply :: "bpy_object \<Rightarrow> py_exn + bpy_object"
  node_sockets :: "node_type \<Rightarrow> (string \<times> pyfloat) list"
  default_tree :: node_tree

subsection \<open>The numpy operations of the projected area\<close>

fun vsub :: "vec3 \<Rightarrow> vec3 \<Rightarrow> vec3" where
  "vsub (a, b, c) (x, y, z) = (a - x, b - y, c - z)"

fun dot :: "vec3 \<Rightarrow> vec3 \<Rightarrow> real" where
  "dot (a, b, c) (x, y, z) = a * x + b * y + c * z"

fun cross :: "vec3 \<Rightarrow> vec3 \<Rightarrow> vec3" where
  "cross (a, b, c) (x, y, z) = (b * z - c * y, c * x - a * z, a * y - b * x)"

definition norm3 :: "vec3 \<Rightarrow> real" where
  "norm3 v = sqrt (dot v v)"

text \<open>\<^verbatim>\<open>pts.mean(axis=0)\<close>.\<close>

definition np_mean :: "vec3 list \<Rightarrow> vec3" where
  "np_mean pts =
     (sum_list (map vx pts) / real (length pts),
      sum_list (map vy pts) / real (length pts),
      sum_list (map vz pts) / real (length pts))"

text \<open>
  \<^verbatim>\<open>np.cov(pts.T)\<close>: the variables are the three coordinates, the observations the
  points; numpy subtracts the mean and divides by N - 1.
\<close>

definition cov_entry :: "(vec3 \<Rightarrow> real) \<Rightarrow> (vec3 \<Rightarrow> real) \<Rightarrow> vec3 list \<Rightarrow> real" where
  "cov_entry f g pts =
     (let m = np_mean pts
      in sum_list (map (\<lambda>p. (f p - f m) * (g p - g m)) pts) / (real (length pts) - 1))"

definition np_cov :: "vec3 list \<Rightarrow> mat3" where
  "np_cov pts =
     ((cov_entry vx vx pts, cov_entry vx vy pts, cov_entry vx vz pts),
      (cov_entry vy vx pts, cov_entry vy vy pts, cov_entry vy vz pts),
      (cov_entry vz vx pts, cov_entry vz vy pts, cov_entry vz vz pts))"

text \<open>\<^verbatim>\<open>np.argmin\<close>, \<^verbatim>\<open>np.argmax\<close> of three values: the first index of the extremum.\<close>

fun argmin3 :: "vec3 \<Rightarrow> nat" where
  "argmin3 (a, b, c) = (if a \<le> b \<and> a \<le> c then 0 else if b \<le> c then 1 else 2)"

fun argmax3 :: "vec3 \<Rightarrow> nat" where
  "argmax3 (a, b, c) = (if b \<le> a \<and> c \<le> a then 0 else if c \<le> b then 1 else 2)"

text \<open>\<^verbatim>\<open>eigvecs[:, k]\<close>: column k of a matrix given by its rows.\<close>

fun column :: "mat3 \<Rightarrow> nat \<Rightarrow> vec3" where
  "column ((a0, a1, a2), (b0, b1, b2), (c0, c1, c2)) k =
     (if k = 0 then (a0, b0, c0) else if k = 1 then (a1, b1, c1) else (a2, b2, c2))"

text \<open>
  \<^verbatim>\<open>v /= np.linalg.norm(v)\<close>. A vector of norm 0 is the zero vector, and numpy's
  0/0 is \<^verbatim>\<open>nan\<close> in every component (a warning, no exception): None here.
\<close>

definition np_normalize :: "vec3 \<Rightarrow> vec3 option" where
  "np_normalize v =
     (if norm3 v = 0 then None
      else Some (vx v / norm3 v, vy v / norm3 v, vz v / norm3 v))"

text \<open>
  The part of \<^verbatim>\<open>bounding_box_area_xy\<close> after the vertices are gathered (at least
  three of them). A \<^verbatim>\<open>nan\<close> axis makes the projections, their minimum and maximum,
  and so the area \<^verbatim>\<open>nan\<close>.
\<close>

definition projected_area :: "(mat3 \<Rightarrow> vec3 \<times> mat3) \<Rightarrow> vec3 list \<Rightarrow> pyfloat" where
  "projected_area eig pts =
     (let center = np_mean pts;
          pts_centered = map (\<lambda>p. vsub p center) pts;
          cov = np_cov pts_centered;
          (eigvals, eigvecs) = eig cov;
          normal = column eigvecs (argmin3 eigvals);
          axis_x = column eigvecs (argmax3 eigvals);
          axis_y = cross normal axis_x
      in case (np_normalize axis_x, np_normalize axis_y) of
           (Some ax, Some ay) \<Rightarrow>
             (let proj_x = map (\<lambda>p. dot (vsub p center) ax) pts;
                  proj_y = map (\<lambda>p. dot (vsub p center) ay) pts
              in Fin (\<bar>(py_max proj_x - py_min proj_x) * (py_max proj_y - py_min proj_y)\<bar>))
         | _ \<Rightarrow> NaN)"

text \<open>The world-space vertices of the mesh objects among \<open>objs\<close>.\<close>

definition verts_world :: "bpy_object list \<Rightarrow> vec3 list" where
  "verts_world objs =
     concat (map (\<lambda>ob. if obj_type ob = MESH
                        then map (mat_vec (matrix_world ob)) (vertices (obj_data ob))
                        else []) objs)"

text \<open>
  The reference objects \<^verbatim>\<open>bounding_box_area_xy\<close> collects: the walls that are
  set, or the active object when no wall is set and it is a mesh.
\<close>

definition reference_objects :: "MaterialEmissionProperties \<Rightarrow> blend \<Rightarrow> bpy_object list" where
  "reference_objects props context =
     (let walls = (case wall_a props of None \<Rightarrow> [] | Some a \<Rightarrow> [objects context a])
                  @ (case wall_b props of None \<Rightarrow> [] | Some b \<Rightarrow> [objects context b])
      in if length walls = 0 then
           (case active_object context of
              Some a \<Rightarrow> if obj_type (objects context a) = MESH
                        then [objects context a] else walls
            | None \<Rightarrow> walls)
         else walls)"

text \<open>\<^verbatim>\<open>bounding_box_area_xy(props, context)\<close>.\<close>

definition bounding_box_area_xy ::
  "(mat3 \<Rightarrow> vec3 \<times> mat3) \<Rightarrow> MaterialEmissionProperties \<Rightarrow> blend \<Rightarrow> pyfloat" where
  "bounding_box_area_xy eig props context =
     (let objs = reference_objects props context
      in if objs = [] then Fin 0
         else (let vs = verts_world objs
               in if length vs < 3 then Fin 0 else projected_area eig vs))"

subsection \<open>Operators: results and node-tree helpers\<close>

datatype status = FINISHED | CANCELLED

datatype level = INFO | WARNING

text \<open>
  A reported message: a fixed text, or one of the f-strings with its value
  (\<^verbatim>\<open>Emission Strength set to ...\<close>, \<^verbatim>\<open>Applied ...K to Emission Color\<close>,
  \<^verbatim>\<open>Created/updated Blackbody node with ...K\<close>).
\<close>

datatype message = Text string | Strength_set pyfloat | Applied_K int | Blackbody_K int

text \<open>
  What \<^verbatim>\<open>execute\<close> does: it raises, or it returns a status after its calls of
  \<^verbatim>\<open>self.report\<close>; either way with the scene as it left it.
\<close>

datatype exec = Raised py_exn blend | Returned status "(level \<times> message) list" blend

definition dict_get :: "('k \<times> 'v) list \<Rightarrow> 'k \<Rightarrow> py_exn + 'v" where
  "dict_get d k = (case map_of d k of None \<Rightarrow> Inl KeyError | Some v \<Rightarrow> Inr v)"

text \<open>\<^verbatim>\<open>next((n for n in nodes if n.type == t), None)\<close>.\<close>

definition first_of_type :: "node_type \<Rightarrow> node_tree \<Rightarrow> node option" where
  "first_of_type t tr = find (\<lambda>n. ntype n = t) (nodes tr)"

definition fresh_name :: "node list \<Rightarrow> nat" where
  "fresh_name ns = fold max (map (\<lambda>n. Suc (node_name n)) ns) 0"

text \<open>\<^verbatim>\<open>nodes.new(type)\<close>: the new node and the tree holding it.\<close>

definition nodes_new :: "host \<Rightarrow> node_type \<Rightarrow> node_tree \<Rightarrow> nat \<times> node_tree" where
  "nodes_new h t tr =
     (let n = \<lparr>node_name = fresh_name (nodes tr), ntype = t, location = (0, 0),
                inputs = node_sockets h t\<rparr>
      in (node_name n, tr\<lparr>nodes := nodes tr @ [n]\<rparr>))"

text \<open>\<^verbatim>\<open>nodes.remove(node)\<close>: the node goes, and the links at its sockets with it.\<close>

definition nodes_remove :: "nat \<Rightarrow> node_tree \<Rightarrow> node_tree" where
  "nodes_remove k tr =
     tr\<lparr>nodes := filter (\<lambda>n. node_name n \<noteq> k) (nodes tr),
        links := filter (\<lambda>l. from_node l \<noteq> k \<and> to_node l \<noteq> k) (links tr)\<rparr>"

text \<open>\<^verbatim>\<open>links.new(output, input)\<close>: an input socket holds one link.\<close>

definition links_new :: "nat \<Rightarrow> string \<Rightarrow> nat \<Rightarrow> string \<Rightarrow> node_tree \<Rightarrow> node_tree" where
  "links_new a out b inp tr =
     tr\<lparr>links := filter (\<lambda>l. \<not> (to_node l = b \<and> to_socket l = inp)) (links tr)
                  @ [\<lparr>from_node = a, from_socket = out, to_node = b, to_socket = inp\<rparr>]\<rparr>"

definition update_node :: "nat \<Rightarrow> (node \<Rightarrow> node) \<Rightarrow> node_tree \<Rightarrow> node_tree" where
  "update_node k f tr = tr\<lparr>nodes := map (\<lambda>n. if node_name n = k then f n else n) (nodes tr)\<rparr>"

text \<open>
  \<^verbatim>\<open>node.inputs[name].default_value = v\<close>. The sockets the code names without a
  membership test are taken to exist.
\<close>

definition set_default_value :: "string \<Rightarrow> pyfloat \<Rightarrow> node \<Rightarrow> node" where
  "set_default_value k v n =
     n\<lparr>inputs := (if k \<in> fst ` set (inputs n)
                    then map (\<lambda>(k', v'). if k' = k then (k', v) else (k', v')) (inputs n)
                    else inputs n @ [(k, v)])\<rparr>"

text \<open>\<^verbatim>\<open>if name in node.inputs: node.inputs[name].default_value = v\<close>.\<close>

definition set_if_present :: "string \<Rightarrow> pyfloat \<Rightarrow> node \<Rightarrow> node" where
  "set_if_present k v n = (if k \<in> fst ` set (inputs n) then set_default_value k v n else n)"

text \<open>\<^verbatim>\<open>mat.use_nodes = True\<close>.\<close>

definition enable_nodes :: "host \<Rightarrow> bpy_material \<Rightarrow> bpy_material \<times> node_tree" where
  "enable_nodes h mat =
     (let tr = (case mat_node_tree mat of None \<Rightarrow> default_tree h | Some t \<Rightarrow> t)
      in (mat\<lparr>use_nodes := True, mat_node_tree := Some tr\<rparr>, tr))"

definition put_material :: "nat \<Rightarrow> bpy_material \<Rightarrow> blend \<Rightarrow> blend" where
  "put_material k mat s = s\<lparr>materials := (materials s)(k := mat)\<rparr>"

definition put_props :: "nat \<Rightarrow> MaterialEmissionProperties \<Rightarrow> blend \<Rightarrow> blend" where
  "put_props k props s = put_material k ((materials s k)\<lparr>emission_props := props\<rparr>) s"

subsection \<open>\<^verbatim>\<open>MATERIAL_OT_calc_room_lumens\<close>\<close>

definition lux_table :: "(room_type_id \<times> int \<times> int \<times> int) list" where
  "lux_table =
    [(kitchen_gen, (150, 250, 350)), (kitchen_task, (300, 500, 700)),
     (living_gen, (100, 150, 200)), (living_read, (300, 400, 500)),
     (bedroom_gen, (60, 100, 150)), (bedroom_read, (200, 300, 400)),
     (office, (300, 400, 500)), (workshop, (300, 500, 700)),
     (bathroom_gen, (150, 250, 350)), (bathroom_mirror, (300, 500, 700)),
     (studio, (500, 750, 1000)), (dining, (100, 150, 200)),
     (hallway, (50, 100, 150)), (laundry, (200, 300, 400)),
     (gym, (200, 300, 400)), (patio, (50, 100, 150))]"

definition temp_k_table :: "(room_type_id \<times> int \<times> int \<times> int) list" where
  "temp_k_table =
    [(kitchen_gen, (3000, 3500, 4000)),
     (kitchen_task, (4000, 4500, 5000)),
     (living_gen, (2700, 3000, 3500)),
     (living_read, (3000, 3500, 4000)),
     (bedroom_gen, (2500, 2700, 3000)),
     (bedroom_read, (2700, 3000, 3500)),
     (office, (4000, 4500, 5000)),
     (workshop, (4000, 5000, 6500)),
     (bathroom_gen, (3000, 3500, 4000)),
     (bathroom_mirror, (4000, 4500, 5000)),
     (studio, (5000, 5500, 6500)),
     (dining, (2700, 3000, 3500)),
     (hallway, (2700, 3000, 4000)),
     (laundry, (3500, 4000, 4500)),
     (gym, (4000, 4500, 5000)),
     (patio, (2700, 3000, 4000))]"

text \<open>\<^verbatim>\<open>h_factor = 1 + 0.05 * max(0, (height * 3.28) - 10)\<close>.\<close>

definition h_factor :: "real \<Rightarrow> real" where
  "h_factor height = 1 + 5 / 100 * max 0 (height * (328 / 100) - 10)"

text \<open>
  The area block: None when the operator reports the invalid area and returns CANCELLED.
\<close>

definition area_block ::
  "(mat3 \<Rightarrow> vec3 \<times> mat3) \<Rightarrow> blend \<Rightarrow> MaterialEmissionProperties
     \<Rightarrow> MaterialEmissionProperties option" where
  "area_block eig context props =
     (if room_area_source props = BOUNDING_BOX then
        (let area_v = bounding_box_area_xy eig props context
         in if pf_le area_v (Fin 0) then None else Some (set_room_area area_v props))
      else Some props)"

text \<open>The height block.\<close>

definition height_block :: "blend \<Rightarrow> MaterialEmissionProperties \<Rightarrow> MaterialEmissionProperties" where
  "height_block context props =
     (if height_source props = FROM_OBJECT \<and> height_object props \<noteq> None then
        (let h = object_height (map_option (objects context) (height_object props))
         in if h > 0 then set_room_height h props else props)
      else props)"

text \<open>The lookups and the six outputs.\<close>

definition outputs_block :: "MaterialEmissionProperties \<Rightarrow> py_exn + MaterialEmissionProperties" where
  "outputs_block props =
     (let area_v = room_area props; height = room_height props
      in case dict_get lux_table (room_type props) of
           Inl e \<Rightarrow> Inl e
         | Inr (lux0, lux1, lux2) \<Rightarrow>
             (case dict_get temp_k_table (room_type props) of
                Inl e \<Rightarrow> Inl e
              | Inr (t0, t1, t2) \<Rightarrow>
                  Inr (props\<lparr>lumens_min := pf_mul (pf_mul (Fin (of_int lux0)) area_v) (Fin (h_factor height)),
                             lumens_avg := pf_mul (pf_mul (Fin (of_int lux1)) area_v) (Fin (h_factor height)),
                             lumens_max := pf_mul (pf_mul (Fin (of_int lux2)) area_v) (Fin (h_factor height)),
                             temp_min := t0, temp_avg := t1, temp_max := t2\<rparr>)))"

text \<open>
  \<^verbatim>\<open>execute\<close>: \<^verbatim>\<open>context.object.active_material.emission_props\<close> raises
  AttributeError when there is no object or no active material.
\<close>

definition calc_room_lumens :: "host \<Rightarrow> blend \<Rightarrow> exec" where
  "calc_room_lumens h context =
     (case context_object context of
        None \<Rightarrow> Raised AttributeError context
      | Some ob \<Rightarrow>
          (case active_material (objects context ob) of
             None \<Rightarrow> Raised AttributeError context
           | Some m \<Rightarrow>
               (let props = emission_props (materials context m)
                in case area_block (linalg_eig h) context props of
                     None \<Rightarrow> Returned CANCELLED [(WARNING, Text ''Invalid bounding box area'')] context
                   | Some props1 \<Rightarrow>
                       (let props2 = height_block context props1
                        in case outputs_block props2 of
                             Inl e \<Rightarrow> Raised e (put_props m props2 context)
                           | Inr props3 \<Rightarrow> Returned FINISHED [] (put_props m props3 context)))))"

subsection \<open>\<^verbatim>\<open>MATERIAL_OT_use_lumens\<close>\<close>

datatype mode_id = MODE_MIN | MODE_AVG | MODE_MAX

definition use_lumens :: "mode_id \<Rightarrow> blend \<Rightarrow> exec" where
  "use_lumens mode context =
     (case context_object context of
        None \<Rightarrow> Raised AttributeError context
      | Some ob \<Rightarrow>
          (case active_material (objects context ob) of
             None \<Rightarrow> Raised AttributeError context
           | Some m \<Rightarrow>
               (let props = emission_props (materials context m)
                in case dict_get [(MODE_MIN, lumens_min props), (MODE_AVG, lumens_avg props),
                                  (MODE_MAX, lumens_max props)] mode of
                     Inl e \<Rightarrow> Raised e context
                   | Inr val \<Rightarrow> Returned FINISHED [] (put_props m (set_lumens val props) context))))"

subsection \<open>\<^verbatim>\<open>MATERIAL_OT_apply_temperature\<close>\<close>

text \<open>
  The node work of \<^verbatim>\<open>execute\<close>: the Blackbody node is found or created, takes the
  temperature, and is linked to the Principled BSDF when there is one. The result is the
  report and the tree.
\<close>

definition blackbody_nodes :: "host \<Rightarrow> int \<Rightarrow> node_tree \<Rightarrow> (level \<times> message) \<times> node_tree" where
  "blackbody_nodes h temp tr =
     (let (bb, tr1) =
            (case first_of_type BLACKBODY tr of
               Some n \<Rightarrow> (node_name n, tr)
             | None \<Rightarrow>
                 (let (k, t) = nodes_new h BLACKBODY tr
                  in (k, update_node k (\<lambda>n. n\<lparr>location := (- 300, 0)\<rparr>) t)));
          tr2 = update_node bb (set_default_value ''Temperature'' (Fin (of_int temp))) tr1
      in case first_of_type BSDF_PRINCIPLED tr2 of
           Some principled \<Rightarrow>
             ((INFO, Applied_K temp),
              links_new bb ''Color'' (node_name principled) ''Emission Color'' tr2)
         | None \<Rightarrow> ((INFO, Blackbody_K temp), tr2))"

definition apply_temperature :: "host \<Rightarrow> mode_id \<Rightarrow> blend \<Rightarrow> exec" where
  "apply_temperature h mode context =
     (case context_object context of
        None \<Rightarrow> Raised AttributeError context
      | Some ob \<Rightarrow>
          (case active_material (objects context ob) of
             None \<Rightarrow> Returned CANCELLED [(WARNING, Text ''Material must use nodes'')] context
           | Some m \<Rightarrow>
               (let mat = materials context m
                in if \<not> use_nodes mat
                   then Returned CANCELLED [(WARNING, Text ''Material must use nodes'')] context
                   else
                     (let props = emission_props mat
                      in case dict_get [(MODE_MIN, temp_min props), (MODE_AVG, temp_avg props),
                                        (MODE_MAX, temp_max props)] mode of
                           Inl e \<Rightarrow> Raised e context
                         | Inr temp \<Rightarrow>
                             (case mat_node_tree mat of
                                None \<Rightarrow> Raised AttributeError context
                              | Some tr \<Rightarrow>
                                  Returned FINISHED [fst (blackbody_nodes h temp tr)]
                                    (put_material m
                                       (mat\<lparr>mat_node_tree := Some (snd (blackbody_nodes h temp tr))\<rparr>)
                                       context))))))"

subsection \<open>\<^verbatim>\<open>MATERIAL_OT_calc_emission_strength\<close>\<close>

text \<open>\<^verbatim>\<open>surf.links[0].from_node if surf.is_linked else None\<close>.\<close>

definition linked_from :: "nat \<Rightarrow> string \<Rightarrow> node_tree \<Rightarrow> node option" where
  "linked_from b inp tr =
     (case find (\<lambda>l. to_node l = b \<and> to_socket l = inp) (links tr) of
        None \<Rightarrow> None
      | Some l \<Rightarrow> find (\<lambda>n. node_name n = from_node l) (nodes tr))"

definition node_location :: "nat \<Rightarrow> node_tree \<Rightarrow> real \<times> real" where
  "node_location k tr =
     (case find (\<lambda>n. node_name n = k) (nodes tr) of None \<Rightarrow> (0, 0) | Some n \<Rightarrow> location n)"

text \<open>
  The selection is saved, everything is deselected, the object alone is selected and
  made active, its scale is applied, and the selection and the active object are put
  back. The two \<^verbatim>\<open>bpy.ops\<close> calls are not guarded: when one raises, the
  exception leaves \<^verbatim>\<open>execute\<close> with the scene as it is at that point.
\<close>

definition apply_object_scale :: "host \<Rightarrow> nat \<Rightarrow> blend \<Rightarrow> (py_exn \<times> blend) + blend" where
  "apply_object_scale h ob context =
     (let selected = selected_objects context;
          active = active_object context
      in if \<not> select_all_poll h context then Inl (RuntimeError, context)
         else
           (let c1 = context\<lparr>selected_objects := {}\<rparr>;
                c2 = c1\<lparr>selected_objects := insert ob (selected_objects c1)\<rparr>;
                c3 = c2\<lparr>active_object := Some ob\<rparr>
            in case transform_apply h (objects c3 ob) of
                 Inl e \<Rightarrow> Inl (e, c3)
               | Inr ob' \<Rightarrow>
                   (let c4 = c3\<lparr>objects := (objects c3)(ob := ob')\<rparr>;
                        c5 = c4\<lparr>selected_objects := selected_objects c4 \<union> selected\<rparr>
                    in Inr (c5\<lparr>active_object := active\<rparr>))))"

text \<open>The node update at the end of \<^verbatim>\<open>execute\<close>.\<close>

definition strength_nodes :: "host \<Rightarrow> pyfloat \<Rightarrow> node_tree \<Rightarrow> node_tree" where
  "strength_nodes h strength_v tr =
     (let (out, tr1) = (case first_of_type OUTPUT_MATERIAL tr of
                          Some n \<Rightarrow> (node_name n, tr)
                        | None \<Rightarrow> nodes_new h OUTPUT_MATERIAL tr);
          current = linked_from out ''Surface'' tr1
      in if current \<noteq> None \<and> map_option ntype current = Some BSDF_PRINCIPLED then
           update_node (node_name (the current))
             (set_default_value ''Emission Strength'' strength_v) tr1
         else
           (let (em, t1) = nodes_new h EMISSION tr1;
                t2 = update_node em
                       (\<lambda>n. n\<lparr>location := (fst (node_location out t1) - 300,
                                              snd (node_location out t1))\<rparr>) t1;
                t3 = links_new em ''Emission'' out ''Surface'' t2
            in update_node em (set_default_value ''Strength'' strength_v) t3))"

definition strength_to_nodes :: "host \<Rightarrow> pyfloat \<Rightarrow> bpy_material \<Rightarrow> bpy_material" where
  "strength_to_nodes h strength_v mat =
     (fst (enable_nodes h mat))
       \<lparr>mat_node_tree := Some (strength_nodes h strength_v (snd (enable_nodes h mat)))\<rparr>"

definition calc_emission_strength :: "host \<Rightarrow> blend \<Rightarrow> exec" where
  "calc_emission_strength h context =
     (case context_object context of
        None \<Rightarrow> Returned CANCELLED [(WARNING, Text ''Select a mesh object'')] context
      | Some ob \<Rightarrow>
          if obj_type (objects context ob) \<noteq> MESH
          then Returned CANCELLED [(WARNING, Text ''Select a mesh object'')] context
          else
            (case active_material (objects context ob) of
               None \<Rightarrow> Returned CANCELLED [(WARNING, Text ''No active material found'')] context
             | Some m \<Rightarrow>
                 (let props = emission_props (materials context m)
                  in case apply_object_scale h ob context of
                       Inl (e, c) \<Rightarrow> Raised e c
                     | Inr c \<Rightarrow>
                         (let a = (if \<not> auto_area props then area props
                                   else get_active_material_area (Some (objects c ob)))
                          in if a \<le> 0
                             then Returned CANCELLED [(WARNING, Text ''Invalid emission area'')] c
                             else
                               (let total_area = a * of_int (num_lights props)
                                in case py_div (lumens props) (ler props) of
                                     Inl e \<Rightarrow> Raised e c
                                   | Inr q \<Rightarrow>
                                       (case py_div q (Fin total_area) of
                                          Inl e \<Rightarrow> Raised e c
                                        | Inr strength_v \<Rightarrow>
                                            Returned FINISHED [(INFO, Strength_set strength_v)]
                                              (put_material m
                                                 (strength_to_nodes h strength_v
                                                    ((materials c m)\<lparr>emission_props :=
                                                       props\<lparr>strength := strength_v\<rparr>\<rparr>))
                                                 c)))))))"

subsection \<open>\<^verbatim>\<open>MATERIAL_OT_make_it_lamp\<close>\<close>

definition purge_node :: "node \<Rightarrow> node_tree \<Rightarrow> node_tree" where
  "purge_node n tr =
     (if (has_shader_output (ntype n) \<and> ntype n \<noteq> OUTPUT_MATERIAL) \<or> ntype n = BLACKBODY
      then nodes_remove (node_name n) tr else tr)"

definition lamp_surface :: "node \<Rightarrow> node" where
  "lamp_surface n =
     set_if_present ''Sheen Weight'' (Fin 0)
       (set_if_present ''Coat Weight'' (Fin 0)
          (set_if_present ''Transmission Weight'' (Fin 1)
             (set_if_present ''IOR Level'' (Fin (705 / 1000))
                (set_default_value ''IOR'' (Fin (145 / 100))
                   (set_default_value ''Roughness'' (Fin (5 / 100))
                      (set_default_value ''Metallic'' (Fin 0) n))))))"

text \<open>
  The node work of \<^verbatim>\<open>execute\<close>: the clean sweep, the fresh Principled BSDF linked
  to the output, its surface presets, and the single Blackbody node.
\<close>

definition lamp_nodes :: "host \<Rightarrow> node_tree \<Rightarrow> node_tree" where
  "lamp_nodes h tr =
     (let tr1 = fold purge_node (nodes tr) tr;
          (principled, tr2) = nodes_new h BSDF_PRINCIPLED tr1;
          tr3 = update_node principled (\<lambda>n. n\<lparr>location := (0, 300)\<rparr>) tr2;
          (output_node, tr4) =
             (case first_of_type OUTPUT_MATERIAL tr3 of
                Some n \<Rightarrow> (node_name n, tr3)
              | None \<Rightarrow>
                  (let (k, t) = nodes_new h OUTPUT_MATERIAL tr3
                   in (k, update_node k (\<lambda>n. n\<lparr>location := (300, 300)\<rparr>) t)));
          tr5 = links_new principled ''BSDF'' output_node ''Surface'' tr4;
          tr6 = update_node principled lamp_surface tr5;
          (bb, tr7) = nodes_new h BLACKBODY tr6;
          tr8 = update_node bb
                  (\<lambda>n. n\<lparr>location := (fst (node_location principled tr7) - 450,
                                         snd (node_location principled tr7) - 200)\<rparr>) tr7;
          tr9 = update_node bb (set_default_value ''Temperature'' (Fin 3500)) tr8
      in links_new bb ''Color'' principled ''Emission Color'' tr9)"

definition make_it_lamp :: "host \<Rightarrow> blend \<Rightarrow> exec" where
  "make_it_lamp h context =
     (case context_object context of
        None \<Rightarrow> Raised AttributeError context
      | Some ob \<Rightarrow>
          (case active_material (objects context ob) of
             None \<Rightarrow> Returned CANCELLED [(WARNING, Text ''No active material found'')] context
           | Some m \<Rightarrow>
               Returned FINISHED
                 [(INFO, Text ''Material purged and PBR Lamp setup applied cleanly.'')]
                 (put_material m
                    ((fst (enable_nodes h (materials context m)))
                       \<lparr>mat_node_tree :=
                          Some (lamp_nodes h (snd (enable_nodes h (materials context m))))\<rparr>)
                    context)))"

subsection \<open>Property edits and the operations of the add-on\<close>

text \<open>\<^verbatim>\<open>update_height_from_object(self, context)\<close>.\<close>

definition update_height_from_object :: "blend \<Rightarrow> MaterialEmissionProperties \<Rightarrow> MaterialEmissionProperties" where
  "update_height_from_object context self =
     (if height_source self = FROM_OBJECT \<and> height_object self \<noteq> None
         \<and> map_option (\<lambda>k. obj_type (objects context k)) (height_object self) = Some MESH
      then (let h = object_height (map_option (objects context) (height_object self))
            in if h > 0 then set_room_height h self else self)
      else self)"

text \<open>
  What can happen to the properties of material \<open>m\<close>: the user edits \<^verbatim>\<open>ler\<close>, picks
  a preset or a height object (the property is stored, then its update callback runs),
  or one of the five operators runs.
\<close>

datatype action = Edit_ler nat pyfloat | Edit_ler_preset nat ler_preset_id
  | Edit_height_object nat "nat option"
  | Run_make_it_lamp | Run_calc_room_lumens | Run_use_lumens mode_id
  | Run_apply_temperature mode_id | Run_calc_emission_strength

definition scene_after :: "exec \<Rightarrow> blend" where
  "scene_after r = (case r of Raised e s \<Rightarrow> s | Returned st rs s \<Rightarrow> s)"

fun step :: "host \<Rightarrow> action \<Rightarrow> blend \<Rightarrow> blend" where
  "step h (Edit_ler m v) s = put_props m (set_ler v (emission_props (materials s m))) s"
| "step h (Edit_ler_preset m p) s =
     (let props = (emission_props (materials s m))\<lparr>ler_preset := p\<rparr>
      in case update_ler_from_preset props of
           Inl e \<Rightarrow> put_props m props s
         | Inr props' \<Rightarrow> put_props m props' s)"
| "step h (Edit_height_object m ho) s =
     put_props m
       (update_height_from_object s ((emission_props (materials s m))\<lparr>height_object := ho\<rparr>)) s"
| "step h Run_make_it_lamp s = scene_after (make_it_lamp h s)"
| "step h Run_calc_room_lumens s = scene_after (calc_room_lumens h s)"
| "step h (Run_use_lumens mode) s = scene_after (use_lumens mode s)"
| "step h (Run_apply_temperature mode) s = scene_after (apply_temperature h mode s)"
| "step h Run_calc_emission_strength s = scene_after (calc_emission_strength h s)"

text \<open>The declared minima of the properties; \<^verbatim>\<open>nan\<close> passes the host's clamp.\<close>

fun pf_at_least :: "real \<Rightarrow> pyfloat \<Rightarrow> bool" where
  "pf_at_least m (Fin v) = (m \<le> v)"
| "pf_at_least m NaN = True"

definition props_ok :: "MaterialEmissionProperties \<Rightarrow> bool" where
  "props_ok p =
     (pf_at_least 0 (lumens p) \<and> pf_at_least 1 (ler p) \<and> 1 / 10000 \<le> area p
      \<and> 1 \<le> num_lights p
      \<and> pf_at_least 1 (room_area p) \<and> 1 / 2 \<le> room_height p)"

subsection \<open>The lux figure a label shows\<close>

text \<open>
  The number a room type's label shows: the digits after the opening parenthesis,
  followed by \<^verbatim>\<open> Lux)\<close>.
\<close>

definition label_lux :: "string \<Rightarrow> nat option" where
  "label_lux s =
     (let after = drop 1 (dropWhile (\<lambda>c. c \<noteq> CHR ''('') s);
          ds = takeWhile is_digit after;
          rest = dropWhile is_digit after
      in if ds \<noteq> [] \<and> rest = '' Lux)'' then Some (digits_val ds) else None)"

subsection \<open>A small scene to run the code on\<close>

text \<open>The property group with its declared defaults.\<close>

definition default_props :: MaterialEmissionProperties where
  "default_props =
     \<lparr>lumens = Fin 850, ler_preset = P300, ler = Fin 300, auto_area = True, area = 2 / 100,
      num_lights = 1, strength = Fin 0, room_area_source = AREA_MANUAL, room_area = Fin 20,
      wall_a = None, wall_b = None, height_source = HEIGHT_MANUAL, height_object = None,
      room_height = 27 / 10, room_type = living_gen,
      lumens_min = Fin 0, lumens_avg = Fin 0, lumens_max = Fin 0,
      temp_min = 0, temp_avg = 0, temp_max = 0\<rparr>"

text \<open>The host's default cube: edge 2, centred at the origin, one material slot.\<close>

definition cube :: bpy_object where
  "cube =
     \<lparr>obj_type = MESH,
      obj_data = \<lparr>vertices = [(1, 1, 1), (1, 1, - 1), (1, - 1, 1), (1, - 1, - 1),
                               (- 1, 1, 1), (- 1, 1, - 1), (- 1, - 1, 1), (- 1, - 1, - 1)],
                  faces = [\<lparr>calc_area = 4, material_index = 0\<rparr>,
                           \<lparr>calc_area = 4, material_index = 0\<rparr>,
                           \<lparr>calc_area = 4, material_index = 0\<rparr>,
                           \<lparr>calc_area = 4, material_index = 0\<rparr>,
                           \<lparr>calc_area = 4, material_index = 0\<rparr>,
                           \<lparr>calc_area = 4, material_index = 0\<rparr>]\<rparr>,
      matrix_world = identity_matrix, active_material_index = 0, active_material = Some 0\<rparr>"

text \<open>A floor of 4 m by 3 m, and a strip 0.3 m high.\<close>

definition floor_plane :: bpy_object where
  "floor_plane =
     \<lparr>obj_type = MESH,
      obj_data = \<lparr>vertices = [(2, 3 / 2, 0), (2, - 3 / 2, 0), (- 2, 3 / 2, 0), (- 2, - 3 / 2, 0)],
                  faces = [\<lparr>calc_area = 12, material_index = 0\<rparr>]\<rparr>,
      matrix_world = identity_matrix, active_material_index = 0, active_material = Some 0\<rparr>"

definition low_strip :: bpy_object where
  "low_strip =
     \<lparr>obj_type = MESH,
      obj_data = \<lparr>vertices = [(0, 0, 0), (1, 0, 0), (1, 0, 3 / 10), (0, 0, 3 / 10)],
                  faces = [\<lparr>calc_area = 3 / 10, material_index = 0\<rparr>]\<rparr>,
      matrix_world = identity_matrix, active_material_index = 0, active_material = None\<rparr>"

text \<open>
  An eigen-decomposition of a diagonal matrix: the diagonal entries, with the unit
  vectors as eigenvectors. The scene's covariance matrices are diagonal.
\<close>

fun eig_diagonal :: "mat3 \<Rightarrow> vec3 \<times> mat3" where
  "eig_diagonal ((a0, a1, a2), (b0, b1, b2), (c0, c1, c2)) =
     ((a0, b1, c2), ((1, 0, 0), (0, 1, 0), (0, 0, 1)))"

definition example_host :: host where
  "example_host =
     \<lparr>linalg_eig = eig_diagonal, select_all_poll = (\<lambda>s. True),
      transform_apply = (\<lambda>ob. Inr ob),
      node_sockets = (\<lambda>t. if t = EMISSION then [(''Strength'', Fin 1)]
                           else if t = BLACKBODY then [(''Temperature'', Fin 1500)]
                           else if t = BSDF_PRINCIPLED
                           then [(''Metallic'', Fin 0), (''Roughness'', Fin (1 / 2)),
                                 (''IOR'', Fin (3 / 2)), (''Emission Strength'', Fin 0)]
                           else []),
      default_tree =
        \<lparr>nodes = [\<lparr>node_name = 0, ntype = BSDF_PRINCIPLED, location = (10, 300),
                     inputs = [(''Metallic'', Fin 0), (''Roughness'', Fin (1 / 2)),
                               (''IOR'', Fin (3 / 2)), (''Emission Strength'', Fin 0)]\<rparr>,
                  \<lparr>node_name = 1, ntype = OUTPUT_MATERIAL, location = (300, 300), inputs = []\<rparr>],
         links = [\<lparr>from_node = 0, from_socket = ''BSDF'', to_node = 1, to_socket = ''Surface''\<rparr>]\<rparr>\<rparr>"

text \<open>
  Object 0 is the cube (active, with material 0), object 1 the floor, every other
  object the strip; every material has the default properties and no node tree yet.
\<close>

definition example_scene :: "MaterialEmissionProperties \<Rightarrow> blend" where
  "example_scene props =
     \<lparr>objects = (\<lambda>k. if k = 0 then cube else if k = 1 then floor_plane else low_strip),
      materials = (\<lambda>k. \<lparr>emission_props = props, use_nodes = False, mat_node_tree = None\<rparr>),
      selected_objects = {}, active_object = Some 0, context_object = Some 0\<rparr>"

subsection \<open>Reading results and inputs\<close>

definition status_of :: "exec \<Rightarrow> status option" where
  "status_of r = (case r of Raised e s \<Rightarrow> None | Returned st rs s \<Rightarrow> Some st)"



text \<open>
  The object and material \<^verbatim>\<open>calc_emission_strength\<close> works on: the context's
  object when it is a mesh with an active material.
\<close>

definition emission_target :: "blend \<Rightarrow> (nat \<times> nat) option" where
  "emission_target s =
     (case context_object s of
        None \<Rightarrow> None
      | Some ob \<Rightarrow>
          if obj_type (objects s ob) \<noteq> MESH then None
          else (case active_material (objects s ob) of
                  None \<Rightarrow> None
                | Some m \<Rightarrow> Some (ob, m)))"

text \<open>
  The object with its scale applied, when the host's two calls succeed: None when
  \<^verbatim>\<open>select_all\<close> or \<^verbatim>\<open>transform_apply\<close> raises.
\<close>

definition scale_applied :: "host \<Rightarrow> blend \<Rightarrow> nat \<Rightarrow> bpy_object option" where
  "scale_applied h s ob =
     (if select_all_poll h s
      then (case transform_apply h (objects s ob) of Inl e \<Rightarrow> None | Inr ob' \<Rightarrow> Some ob')
      else None)"

text \<open>
  The emission area computed for the object with its scale applied: the manual area,
  or its material area.
\<close>

definition emission_area :: "bpy_object \<Rightarrow> MaterialEmissionProperties \<Rightarrow> real" where
  "emission_area ob' p = (if auto_area p then get_active_material_area (Some ob') else area p)"

text \<open>The default properties in a room 4 m high.\<close>

definition tall_room :: MaterialEmissionProperties where
  "tall_room = default_props\<lparr>room_height := 4\<rparr>"

text \<open>The default properties with the room area taken from the bounding box.\<close>

definition bbox_props :: MaterialEmissionProperties where
  "bbox_props = default_props\<lparr>room_area_source := BOUNDING_BOX\<rparr>"






text \<open>
  A shade with two material slots, the second active: one face of area 1 on slot 0,
  faces of areas 2 and 3 on slot 1. The scene with the shade as object 0, three lights
  sharing the material, and a host whose \<^verbatim>\<open>transform_apply\<close> applies a scale of 2
  (every face area is multiplied by 4).
\<close>

definition shade :: bpy_object where
  "shade =
     \<lparr>obj_type = MESH,
      obj_data = \<lparr>vertices = [(0, 0, 0), (1, 0, 0), (1, 1, 0), (0, 1, 0), (0, 0, 1)],
                  faces = [\<lparr>calc_area = 1, material_index = 0\<rparr>,
                           \<lparr>calc_area = 2, material_index = 1\<rparr>,
                           \<lparr>calc_area = 3, material_index = 1\<rparr>]\<rparr>,
      matrix_world = identity_matrix, active_material_index = 1, active_material = Some 0\<rparr>"

definition three_lights :: MaterialEmissionProperties where
  "three_lights = default_props\<lparr>num_lights := 3\<rparr>"

definition three_lights_manual :: MaterialEmissionProperties where
  "three_lights_manual = default_props\<lparr>num_lights := 3, auto_area := False, area := 1 / 2\<rparr>"

definition shade_scene :: "MaterialEmissionProperties \<Rightarrow> blend" where
  "shade_scene props =
     (example_scene props)\<lparr>objects := (objects (example_scene props))(0 := shade)\<rparr>"

definition scale_areas :: "bpy_object \<Rightarrow> bpy_object" where
  "scale_areas ob =
     ob\<lparr>obj_data := (obj_data ob)\<lparr>faces := map (\<lambda>f. f\<lparr>calc_area := 4 * calc_area f\<rparr>)
                                                 (faces (obj_data ob))\<rparr>\<rparr>"

definition scaling_host :: host where
  "scaling_host = example_host\<lparr>transform_apply := (\<lambda>ob. Inr (scale_areas ob))\<rparr>"

text \<open>
  A room 4 m high whose area is taken from the bounding box of the floor (object 1,
  4 m by 3 m).
\<close>

definition floor_room :: MaterialEmissionProperties where
  "floor_room = default_props\<lparr>room_area_source := BOUNDING_BOX, wall_a := Some 1,
                               room_height := 4\<rparr>"





text \<open>The efficacy of every material is at least 1.\<close>

abbreviation ler_ok :: "blend \<Rightarrow> bool" where
  "ler_ok s \<equiv> (\<forall>m. pf_le (Fin 1) (ler (emission_props (materials s m))))"

text \<open>The user's assignment of \<^verbatim>\<open>nan\<close> to \<^verbatim>\<open>ler\<close>.\<close>

fun nan_edit :: "action \<Rightarrow> bool" where
  "nan_edit (Edit_ler m NaN) = True"
| "nan_edit _ = False"

section \<open>Properties\<close>

subsection \<open>Auxiliary facts\<close>

lemmas scene_defs = example_scene_def example_host_def default_props_def cube_def floor_plane_def
  low_strip_def identity_matrix_def



lemma put_props_simps [simp]:
  "emission_props (materials (put_props m p s) m) = p"
  "objects (put_props m p s) = objects s"
  "context_object (put_props m p s) = context_object s"
  by (simp_all add: put_props_def put_material_def)

lemma put_props_other: "k \<noteq> m \<Longrightarrow> materials (put_props m p s) k = materials s k"
  by (simp add: put_props_def put_material_def)

lemma emission_props_strength_to_nodes [simp]:
  "emission_props (strength_to_nodes h v mat) = emission_props mat"
  by (simp add: strength_to_nodes_def enable_nodes_def Let_def)

lemma lux_table_total: "\<exists>a b c. map_of lux_table rt = Some (a, b, c)"
  by (cases rt) (simp_all add: lux_table_def)

lemma temp_k_table_total: "\<exists>a b c. map_of temp_k_table rt = Some (a, b, c)"
  by (cases rt) (simp_all add: temp_k_table_def)

lemma outputs_block_eq:
  assumes "map_of lux_table (room_type p) = Some (l0, l1, l2)"
    and "map_of temp_k_table (room_type p) = Some (t0, t1, t2)"
  shows "outputs_block p =
     Inr (p\<lparr>lumens_min := pf_mul (pf_mul (Fin (of_int l0)) (room_area p)) (Fin (h_factor (room_height p))),
            lumens_avg := pf_mul (pf_mul (Fin (of_int l1)) (room_area p)) (Fin (h_factor (room_height p))),
            lumens_max := pf_mul (pf_mul (Fin (of_int l2)) (room_area p)) (Fin (h_factor (room_height p))),
            temp_min := t0, temp_avg := t1, temp_max := t2\<rparr>)"
  using assms by (simp add: outputs_block_def dict_get_def Let_def)

lemma outputs_block_total: "\<exists>p'. outputs_block p = Inr p'"
  using lux_table_total [of "room_type p"] temp_k_table_total [of "room_type p"]
  by (auto simp: outputs_block_eq)

text \<open>A run of \<^verbatim>\<open>calc_room_lumens\<close> that returns FINISHED.\<close>

lemma calc_room_lumens_FINISHED_D:
  assumes run: "calc_room_lumens h s = Returned FINISHED rs s'"
    and ob: "context_object s = Some ob"
    and m: "active_material (objects s ob) = Some m"
  shows "\<exists>p1 p3. area_block (linalg_eig h) s (emission_props (materials s m)) = Some p1
           \<and> outputs_block (height_block s p1) = Inr p3
           \<and> s' = put_props m p3 s \<and> rs = []"
  using run ob m
  by (auto simp: calc_room_lumens_def Let_def split: option.splits sum.splits)

lemma area_block_room_type: "area_block eig s p = Some p1 \<Longrightarrow> room_type p1 = room_type p"
  by (auto simp: area_block_def set_room_area_def Let_def split: if_splits)

lemma height_block_room_type [simp]: "room_type (height_block s p) = room_type p"
  by (simp add: height_block_def set_room_height_def Let_def)

lemma calc_room_lumens_outputs:
  assumes run: "calc_room_lumens h s = Returned FINISHED rs s'"
    and ob: "context_object s = Some ob"
    and m: "active_material (objects s ob) = Some m"
    and lux: "map_of lux_table (room_type (emission_props (materials s m))) = Some (l0, l1, l2)"
    and temp: "map_of temp_k_table (room_type (emission_props (materials s m))) = Some (t0, t1, t2)"
  shows "\<exists>p2. emission_props (materials s' m) =
     p2\<lparr>lumens_min := pf_mul (pf_mul (Fin (of_int l0)) (room_area p2)) (Fin (h_factor (room_height p2))),
        lumens_avg := pf_mul (pf_mul (Fin (of_int l1)) (room_area p2)) (Fin (h_factor (room_height p2))),
        lumens_max := pf_mul (pf_mul (Fin (of_int l2)) (room_area p2)) (Fin (h_factor (room_height p2))),
        temp_min := t0, temp_avg := t1, temp_max := t2\<rparr>
     \<and> room_type p2 = room_type (emission_props (materials s m))"
proof -
  from calc_room_lumens_FINISHED_D [OF run ob m] obtain p1 p3 where
    a: "area_block (linalg_eig h) s (emission_props (materials s m)) = Some p1"
    and o: "outputs_block (height_block s p1) = Inr p3"
    and s': "s' = put_props m p3 s" by blast
  have rt: "room_type (height_block s p1) = room_type (emission_props (materials s m))"
    using area_block_room_type [OF a] by simp
  from o lux temp rt show ?thesis
    by (intro exI [of _ "height_block s p1"]) (simp add: outputs_block_eq s')
qed

text \<open>The two operators on the small scene with the default properties.\<close>

lemma example_scene_object: "context_object (example_scene p) = Some 0"
  by (simp add: example_scene_def)

lemma example_scene_material: "active_material (objects (example_scene p) 0) = Some 0"
  by (simp add: example_scene_def cube_def)

lemma example_scene_props: "emission_props (materials (example_scene p) k) = p"
  by (simp add: example_scene_def)

lemma example_room_run:
  "calc_room_lumens example_host (example_scene default_props) =
     Returned FINISHED [] (scene_after (calc_room_lumens example_host (example_scene default_props)))"
  by (simp add: calc_room_lumens_def scene_defs area_block_def height_block_def outputs_block_def
      dict_get_def lux_table_def temp_k_table_def scene_after_def Let_def)

lemma example_room_props:
  "emission_props (materials
     (scene_after (calc_room_lumens example_host (example_scene default_props))) 0)
   = default_props\<lparr>lumens_min := Fin 2000, lumens_avg := Fin 3000, lumens_max := Fin 4000,
        temp_min := 2700, temp_avg := 3000, temp_max := 3500\<rparr>"
  by (simp add: calc_room_lumens_def scene_defs area_block_def height_block_def outputs_block_def
      dict_get_def lux_table_def temp_k_table_def scene_after_def Let_def h_factor_def
      put_props_def put_material_def)

subsection \<open>Claims\<close>

lemma pf_mul_one [simp]: "pf_mul x (Fin 1) = x"
  by (cases x) simp_all

lemma h_factor_low: "height * (328 / 100) \<le> 10 \<Longrightarrow> h_factor height = 1"
  by (simp add: h_factor_def max_def)

lemma h_factor_high:
  "10 < height * (328 / 100) \<Longrightarrow> h_factor height = 1 + 5 / 100 * (height * (328 / 100) - 10)"
  by (simp add: h_factor_def max_def)

lemma h_factor_ge_1: "1 \<le> h_factor height"
  by (simp add: h_factor_def)

lemma tall_room_run:
  "calc_room_lumens example_host (example_scene tall_room) =
     Returned FINISHED [] (scene_after (calc_room_lumens example_host (example_scene tall_room)))"
  by (simp add: calc_room_lumens_def scene_defs tall_room_def area_block_def height_block_def outputs_block_def
      dict_get_def lux_table_def temp_k_table_def scene_after_def Let_def)

lemma tall_room_props:
  "emission_props (materials
     (scene_after (calc_room_lumens example_host (example_scene tall_room))) 0)
   = tall_room\<lparr>lumens_min := Fin 2312, lumens_avg := Fin 3468, lumens_max := Fin 4624,
        temp_min := 2700, temp_avg := 3000, temp_max := 3500\<rparr>"
  by (simp add: calc_room_lumens_def scene_defs tall_room_def area_block_def height_block_def outputs_block_def
      dict_get_def lux_table_def temp_k_table_def scene_after_def Let_def h_factor_def
      put_props_def put_material_def)

text \<open>
  C3, as amended. After a run of \<^verbatim>\<open>calc_room_lumens\<close> that returns FINISHED the
  three lumens values are lux times room area when the room height times 3.28 is at
  most 10; in a taller room they are lux times room area times the height factor
  1 + 0.05 * (height * 3.28 - 10). The counterexample is the default room made 4 m high:
  150 lux on 20 square metres give 3468 lumens, not 3000.
\<close>

theorem lumens_lux_area_height:
  assumes run: "calc_room_lumens h s = Returned FINISHED rs s'"
    and ob: "context_object s = Some ob"
    and m: "active_material (objects s ob) = Some m"
  shows "\<exists>lux_min lux_avg lux_max.
           map_of lux_table (room_type (emission_props (materials s m)))
             = Some (lux_min, lux_avg, lux_max)
         \<and> (room_height (emission_props (materials s' m)) * (328 / 100) \<le> 10 \<longrightarrow>
              lumens_min (emission_props (materials s' m))
                = pf_mul (Fin (of_int lux_min)) (room_area (emission_props (materials s' m)))
            \<and> lumens_avg (emission_props (materials s' m))
                = pf_mul (Fin (of_int lux_avg)) (room_area (emission_props (materials s' m)))
            \<and> lumens_max (emission_props (materials s' m))
                = pf_mul (Fin (of_int lux_max)) (room_area (emission_props (materials s' m))))
         \<and> (10 < room_height (emission_props (materials s' m)) * (328 / 100) \<longrightarrow>
              lumens_min (emission_props (materials s' m))
                = pf_mul (pf_mul (Fin (of_int lux_min)) (room_area (emission_props (materials s' m))))
                    (Fin (1 + 5 / 100 * (room_height (emission_props (materials s' m)) * (328 / 100) - 10)))
            \<and> lumens_avg (emission_props (materials s' m))
                = pf_mul (pf_mul (Fin (of_int lux_avg)) (room_area (emission_props (materials s' m))))
                    (Fin (1 + 5 / 100 * (room_height (emission_props (materials s' m)) * (328 / 100) - 10)))
            \<and> lumens_max (emission_props (materials s' m))
                = pf_mul (pf_mul (Fin (of_int lux_max)) (room_area (emission_props (materials s' m))))
                    (Fin (1 + 5 / 100 * (room_height (emission_props (materials s' m)) * (328 / 100) - 10))))"
proof -
  obtain l0 l1 l2 where lux:
    "map_of lux_table (room_type (emission_props (materials s m))) = Some (l0, l1, l2)"
    using lux_table_total by blast
  obtain t0 t1 t2 where temp:
    "map_of temp_k_table (room_type (emission_props (materials s m))) = Some (t0, t1, t2)"
    using temp_k_table_total by blast
  from calc_room_lumens_outputs [OF run ob m lux temp] obtain p2 where
    "emission_props (materials s' m) =
     p2\<lparr>lumens_min := pf_mul (pf_mul (Fin (of_int l0)) (room_area p2)) (Fin (h_factor (room_height p2))),
        lumens_avg := pf_mul (pf_mul (Fin (of_int l1)) (room_area p2)) (Fin (h_factor (room_height p2))),
        lumens_max := pf_mul (pf_mul (Fin (of_int l2)) (room_area p2)) (Fin (h_factor (room_height p2))),
        temp_min := t0, temp_avg := t1, temp_max := t2\<rparr>" by blast
  with lux show ?thesis by (simp add: h_factor_low h_factor_high)
qed

theorem lumens_lux_area_only_counterexample:
  "status_of (calc_room_lumens example_host (example_scene tall_room)) = Some FINISHED
   \<and> map_of lux_table (room_type (emission_props (materials
        (scene_after (calc_room_lumens example_host (example_scene tall_room))) 0)))
      = Some (100, 150, 200)
   \<and> room_area (emission_props (materials
        (scene_after (calc_room_lumens example_host (example_scene tall_room))) 0)) = Fin 20
   \<and> lumens_avg (emission_props (materials
        (scene_after (calc_room_lumens example_host (example_scene tall_room))) 0)) = Fin 3468
   \<and> lumens_avg (emission_props (materials
        (scene_after (calc_room_lumens example_host (example_scene tall_room))) 0))
      \<noteq> pf_mul (Fin 150) (Fin 20)"
proof -
  have "status_of (calc_room_lumens example_host (example_scene tall_room)) = Some FINISHED"
    by (subst tall_room_run) (simp add: status_of_def)
  then show ?thesis
    by (simp only: tall_room_props) (simp add: tall_room_def default_props_def lux_table_def)
qed

theorem lumens_lux_area_height_witness:
  "room_height (emission_props (materials
      (scene_after (calc_room_lumens example_host (example_scene default_props))) 0)) * (328 / 100) \<le> 10
   \<and> lumens_avg (emission_props (materials
      (scene_after (calc_room_lumens example_host (example_scene default_props))) 0))
     = pf_mul (Fin 150) (Fin 20)"
proof -
  have low: "room_height (emission_props (materials
      (scene_after (calc_room_lumens example_host (example_scene default_props))) 0)) * (328 / 100) \<le> 10"
    by (simp add: example_room_props) (simp add: default_props_def)
  from lumens_lux_area_height [OF example_room_run example_scene_object example_scene_material] low
  obtain lux_min lux_avg lux_max where
    t: "map_of lux_table (room_type default_props) = Some (lux_min, lux_avg, lux_max)"
    and l: "lumens_avg (emission_props (materials
        (scene_after (calc_room_lumens example_host (example_scene default_props))) 0))
      = pf_mul (Fin (of_int lux_avg)) (room_area (emission_props (materials
          (scene_after (calc_room_lumens example_host (example_scene default_props))) 0)))"
    unfolding example_scene_props by blast
  from t have "lux_avg = 150" by (simp add: default_props_def lux_table_def)
  with l low show ?thesis by (simp add: example_room_props)
qed

lemma room_type_items_total: "\<exists>l. map_of room_type_items rt = Some l"
  by (cases rt) (simp_all add: room_type_items_def)

lemma label_lux_items:
  "map_of room_type_items rt = Some label \<Longrightarrow> map_of lux_table rt = Some (a, b, c)
   \<Longrightarrow> label_lux label = Some (nat b)"
  by (cases rt)
     (auto simp: room_type_items_def lux_table_def label_lux_def en_dash_def is_digit_def
        digits_val_def digit_val_def Let_def)

text \<open>
  C6. For every room type the lux triple and the colour-temperature triple come from
  the two tables keyed by the room type (both have a row for every key), a run of
  \<^verbatim>\<open>calc_room_lumens\<close> that returns FINISHED stores the temperature row
  unchanged in temp_min, temp_avg, temp_max and computes the lumens from the lux row, and
  the average lux of the row is the lux figure the room type's label shows.
\<close>

theorem room_type_tables:
  "\<exists>lux_min lux_avg lux_max t_min t_avg t_max label.
      map_of lux_table rt = Some (lux_min, lux_avg, lux_max)
    \<and> map_of temp_k_table rt = Some (t_min, t_avg, t_max)
    \<and> map_of room_type_items rt = Some label
    \<and> label_lux label = Some (nat lux_avg)
    \<and> (\<forall>h s rs s' ob m.
          calc_room_lumens h s = Returned FINISHED rs s'
          \<and> context_object s = Some ob \<and> active_material (objects s ob) = Some m
          \<and> room_type (emission_props (materials s m)) = rt
          \<longrightarrow> temp_min (emission_props (materials s' m)) = t_min
            \<and> temp_avg (emission_props (materials s' m)) = t_avg
            \<and> temp_max (emission_props (materials s' m)) = t_max
            \<and> lumens_min (emission_props (materials s' m))
                = pf_mul (pf_mul (Fin (of_int lux_min)) (room_area (emission_props (materials s' m))))
                    (Fin (h_factor (room_height (emission_props (materials s' m)))))
            \<and> lumens_avg (emission_props (materials s' m))
                = pf_mul (pf_mul (Fin (of_int lux_avg)) (room_area (emission_props (materials s' m))))
                    (Fin (h_factor (room_height (emission_props (materials s' m)))))
            \<and> lumens_max (emission_props (materials s' m))
                = pf_mul (pf_mul (Fin (of_int lux_max)) (room_area (emission_props (materials s' m))))
                    (Fin (h_factor (room_height (emission_props (materials s' m)))))
            \<and> room_type (emission_props (materials s' m)) = rt)"
proof -
  obtain l0 l1 l2 where lux: "map_of lux_table rt = Some (l0, l1, l2)"
    using lux_table_total by blast
  obtain t0 t1 t2 where temp: "map_of temp_k_table rt = Some (t0, t1, t2)"
    using temp_k_table_total by blast
  obtain label where lab: "map_of room_type_items rt = Some label"
    using room_type_items_total by blast
  have run: "temp_min (emission_props (materials s' m)) = t0
            \<and> temp_avg (emission_props (materials s' m)) = t1
            \<and> temp_max (emission_props (materials s' m)) = t2
            \<and> lumens_min (emission_props (materials s' m))
                = pf_mul (pf_mul (Fin (of_int l0)) (room_area (emission_props (materials s' m))))
                    (Fin (h_factor (room_height (emission_props (materials s' m)))))
            \<and> lumens_avg (emission_props (materials s' m))
                = pf_mul (pf_mul (Fin (of_int l1)) (room_area (emission_props (materials s' m))))
                    (Fin (h_factor (room_height (emission_props (materials s' m)))))
            \<and> lumens_max (emission_props (materials s' m))
                = pf_mul (pf_mul (Fin (of_int l2)) (room_area (emission_props (materials s' m))))
                    (Fin (h_factor (room_height (emission_props (materials s' m)))))
            \<and> room_type (emission_props (materials s' m)) = rt"
    if "calc_room_lumens h s = Returned FINISHED rs s'" "context_object s = Some ob"
      "active_material (objects s ob) = Some m" "room_type (emission_props (materials s m)) = rt"
    for h s rs s' ob m
  proof -
    from calc_room_lumens_outputs [OF that(1-3)] lux temp that(4) obtain p2 where
      "emission_props (materials s' m) =
       p2\<lparr>lumens_min := pf_mul (pf_mul (Fin (of_int l0)) (room_area p2)) (Fin (h_factor (room_height p2))),
          lumens_avg := pf_mul (pf_mul (Fin (of_int l1)) (room_area p2)) (Fin (h_factor (room_height p2))),
          lumens_max := pf_mul (pf_mul (Fin (of_int l2)) (room_area p2)) (Fin (h_factor (room_height p2))),
          temp_min := t0, temp_avg := t1, temp_max := t2\<rparr>"
      and "room_type p2 = rt" by metis
    then show ?thesis by simp
  qed
  from lux temp lab label_lux_items [OF lab lux] run show ?thesis by blast
qed


theorem room_type_tables_witness:
  "label_lux (''Living Room '' @ en_dash @ '' General (150 Lux)'') = Some 150
   \<and> temp_min (emission_props (materials
        (scene_after (calc_room_lumens example_host (example_scene default_props))) 0)) = 2700
   \<and> temp_avg (emission_props (materials
        (scene_after (calc_room_lumens example_host (example_scene default_props))) 0)) = 3000
   \<and> temp_max (emission_props (materials
        (scene_after (calc_room_lumens example_host (example_scene default_props))) 0)) = 3500"
proof -
  from room_type_tables [of living_gen]
  obtain lux_min lux_avg lux_max t_min t_avg t_max label where
    lux: "map_of lux_table living_gen = Some (lux_min, lux_avg, lux_max)"
    and temp: "map_of temp_k_table living_gen = Some (t_min, t_avg, t_max)"
    and lab: "map_of room_type_items living_gen = Some label"
    and fig: "label_lux label = Some (nat lux_avg)"
    and run: "\<And>h s rs s' ob m.
          calc_room_lumens h s = Returned FINISHED rs s'
          \<and> context_object s = Some ob \<and> active_material (objects s ob) = Some m
          \<and> room_type (emission_props (materials s m)) = living_gen
          \<Longrightarrow> temp_min (emission_props (materials s' m)) = t_min
            \<and> temp_avg (emission_props (materials s' m)) = t_avg
            \<and> temp_max (emission_props (materials s' m)) = t_max"
    by blast
  have rt: "room_type (emission_props (materials (example_scene default_props) 0)) = living_gen"
    by (simp add: example_scene_props) (simp add: default_props_def)
  from lux have "lux_avg = 150" by (simp add: lux_table_def)
  moreover from temp have "t_min = 2700 \<and> t_avg = 3000 \<and> t_max = 3500"
    by (simp add: temp_k_table_def)
  moreover from lab have "label = ''Living Room '' @ en_dash @ '' General (150 Lux)''"
    by (simp add: room_type_items_def)
  ultimately show ?thesis
    using fig run [of example_host "example_scene default_props" "[]" _ 0 0]
      example_room_run example_scene_object example_scene_material rt
    by simp
qed

lemmas bbox_defs = bounding_box_area_xy_def reference_objects_def verts_world_def projected_area_def np_mean_def
  np_cov_def cov_entry_def np_normalize_def norm3_def

lemma reference_objects_none:
  "wall_a props = None \<Longrightarrow> wall_b props = None
   \<Longrightarrow> (case active_object context of None \<Rightarrow> True
        | Some a \<Rightarrow> obj_type (objects context a) \<noteq> MESH)
   \<Longrightarrow> reference_objects props context = []"
  by (auto simp: reference_objects_def split: option.splits)

lemma bounding_box_no_objects:
  "reference_objects props context = [] \<Longrightarrow> bounding_box_area_xy eig props context = Fin 0"
  by (simp add: bounding_box_area_xy_def)

lemma bounding_box_few_vertices:
  "length (verts_world (reference_objects props context)) < 3
   \<Longrightarrow> bounding_box_area_xy eig props context = Fin 0"
  by (simp add: bounding_box_area_xy_def Let_def)

lemma bounding_box_projected:
  "3 \<le> length (verts_world (reference_objects props context))
   \<Longrightarrow> bounding_box_area_xy eig props context
       = projected_area eig (verts_world (reference_objects props context))"
  by (auto simp: bounding_box_area_xy_def Let_def verts_world_def)

lemma cross_self: "cross v v = (0, 0, 0)"
  by (cases v) simp

lemma np_normalize_zero: "np_normalize (0, 0, 0) = None"
  by (simp add: np_normalize_def norm3_def)

lemma argmin3_equal: "argmin3 (c, c, c) = 0" and argmax3_equal: "argmax3 (c, c, c) = 0"
  by simp_all

text \<open>Equal eigenvalues: the normal and the first axis are the same column.\<close>

lemma projected_area_equal_eigenvalues:
  assumes "fst (eig (np_cov (map (\<lambda>p. vsub p (np_mean pts)) pts))) = (c, c, c)"
  shows "projected_area eig pts = NaN"
  using assms
  by (cases "eig (np_cov (map (\<lambda>p. vsub p (np_mean pts)) pts))")
     (simp add: projected_area_def Let_def cross_self np_normalize_zero split: option.splits)

lemma floor_area:
  "bounding_box_area_xy (linalg_eig example_host) (default_props\<lparr>wall_a := Some 1\<rparr>)
     (example_scene default_props) = Fin 12"
  by (simp add: bbox_defs scene_defs py_max_def py_min_def)

lemma dot_cross_right: "dot (cross n x) x = 0"
  by (cases n; cases x) (simp add: algebra_simps)

lemma norm3_zero_iff: "norm3 v = 0 \<longleftrightarrow> v = (0, 0, 0)"
  by (cases v) (simp add: norm3_def power2_eq_square [symmetric] add_nonneg_eq_0_iff)


lemma np_normalize_unit: "np_normalize v = Some u \<Longrightarrow> norm3 u = 1"
proof (cases v)
  case (fields a b c)
  assume "np_normalize v = Some u"
  with fields have nz: "norm3 v \<noteq> 0" and u: "u = (a / norm3 v, b / norm3 v, c / norm3 v)"
    by (auto simp: np_normalize_def split: if_splits)
  have pos: "0 < a * a + b * b + c * c"
    using nz fields by (simp add: norm3_def) (smt (verit) mult_nonneg_nonneg zero_le_square)
  have "dot u u = (a * a + b * b + c * c) / (norm3 v * norm3 v)"
    by (simp add: u add_divide_distrib)
  also have "norm3 v * norm3 v = a * a + b * b + c * c"
    using pos fields by (simp add: norm3_def)
  finally show ?thesis using pos by (simp add: norm3_def)
qed

lemma np_normalize_dot:
  "np_normalize v = Some u \<Longrightarrow> np_normalize w = Some u' \<Longrightarrow> dot w v = 0 \<Longrightarrow> dot u' u = 0"
  by (cases v; cases w)
     (auto simp: np_normalize_def add_divide_distrib [symmetric] split: if_splits)

text \<open>
  When both axes can be normalised the result is the area of the bounding rectangle of
  the centred points in an orthonormal pair of axes, the first along the eigenvector
  column of the largest eigenvalue.
\<close>

lemma projected_area_frame:
  assumes "projected_area eig pts = Fin a"
  shows "\<exists>ax ay. norm3 ax = 1 \<and> norm3 ay = 1 \<and> dot ay ax = 0
           \<and> np_normalize (column (snd (eig (np_cov (map (\<lambda>p. vsub p (np_mean pts)) pts))))
                (argmax3 (fst (eig (np_cov (map (\<lambda>p. vsub p (np_mean pts)) pts)))))) = Some ax
           \<and> a = \<bar>(py_max (map (\<lambda>p. dot (vsub p (np_mean pts)) ax) pts)
                    - py_min (map (\<lambda>p. dot (vsub p (np_mean pts)) ax) pts))
                  * (py_max (map (\<lambda>p. dot (vsub p (np_mean pts)) ay) pts)
                    - py_min (map (\<lambda>p. dot (vsub p (np_mean pts)) ay) pts))\<bar>"
proof -
  obtain eigvals eigvecs where e:
    "eig (np_cov (map (\<lambda>p. vsub p (np_mean pts)) pts)) = (eigvals, eigvecs)"
    by (cases "eig (np_cov (map (\<lambda>p. vsub p (np_mean pts)) pts))")
  from assms e obtain ax ay where
    ax: "np_normalize (column eigvecs (argmax3 eigvals)) = Some ax"
    and ay: "np_normalize (cross (column eigvecs (argmin3 eigvals))
                (column eigvecs (argmax3 eigvals))) = Some ay"
    and a: "a = \<bar>(py_max (map (\<lambda>p. dot (vsub p (np_mean pts)) ax) pts)
                    - py_min (map (\<lambda>p. dot (vsub p (np_mean pts)) ax) pts))
                  * (py_max (map (\<lambda>p. dot (vsub p (np_mean pts)) ay) pts)
                    - py_min (map (\<lambda>p. dot (vsub p (np_mean pts)) ay) pts))\<bar>"
    by (auto simp: projected_area_def Let_def split: option.splits)
  from np_normalize_dot [OF ax ay dot_cross_right] np_normalize_unit [OF ax]
    np_normalize_unit [OF ay] ax a e
  show ?thesis by (intro exI [of _ ax] exI [of _ ay]) simp
qed

text \<open>
  C5. On the host's default cube as active object, with no wall set,
  \<^verbatim>\<open>bounding_box_area_xy\<close> returns \<^verbatim>\<open>nan\<close>, not the area of a bounding
  rectangle: the covariance of the eight vertices is 8/7 times the identity, its
  eigenvalues are equal, \<^verbatim>\<open>argmin\<close> and \<^verbatim>\<open>argmax\<close> both give column 0, the
  cross product of that column with itself is the zero vector and its normalisation
  divides 0 by 0. The lemmas above give the rest of the claim: 0.0 with no reference
  object or fewer than three vertices, and otherwise, when both axes can be normalised,
  the bounding rectangle in an orthonormal frame.
\<close>

theorem cube_area_is_nan:
  "reference_objects default_props (example_scene default_props) = [cube]
   \<and> length (verts_world [cube]) = 8
   \<and> np_cov (map (\<lambda>p. vsub p (np_mean (verts_world [cube]))) (verts_world [cube]))
      = ((8 / 7, 0, 0), (0, 8 / 7, 0), (0, 0, 8 / 7))
   \<and> bounding_box_area_xy (linalg_eig example_host) default_props (example_scene default_props)
      = NaN"
  by (simp add: bbox_defs scene_defs)

lemma lux_table_ordered: "map_of lux_table rt = Some (a, b, c) \<Longrightarrow> 0 \<le> a \<and> a \<le> b \<and> b \<le> c"
  by (cases rt) (auto simp: lux_table_def)

lemma temp_k_table_ordered: "map_of temp_k_table rt = Some (a, b, c) \<Longrightarrow> a \<le> b \<and> b \<le> c"
  by (cases rt) (auto simp: temp_k_table_def)

text \<open>With a room area that is a number, the outputs of a finished run are ordered.\<close>

lemma calc_room_lumens_ordered:
  assumes run: "calc_room_lumens h s = Returned FINISHED rs s'"
    and ob: "context_object s = Some ob"
    and m: "active_material (objects s ob) = Some m"
    and area: "room_area (emission_props (materials s' m)) = Fin a" "0 \<le> a"
  shows "pf_le (lumens_min (emission_props (materials s' m))) (lumens_avg (emission_props (materials s' m)))
       \<and> pf_le (lumens_avg (emission_props (materials s' m))) (lumens_max (emission_props (materials s' m)))
       \<and> temp_min (emission_props (materials s' m)) \<le> temp_avg (emission_props (materials s' m))
       \<and> temp_avg (emission_props (materials s' m)) \<le> temp_max (emission_props (materials s' m))"
proof -
  obtain l0 l1 l2 where lux:
    "map_of lux_table (room_type (emission_props (materials s m))) = Some (l0, l1, l2)"
    using lux_table_total by blast
  obtain t0 t1 t2 where temp:
    "map_of temp_k_table (room_type (emission_props (materials s m))) = Some (t0, t1, t2)"
    using temp_k_table_total by blast
  from calc_room_lumens_outputs [OF run ob m lux temp] obtain p2 where p2:
    "emission_props (materials s' m) =
     p2\<lparr>lumens_min := pf_mul (pf_mul (Fin (of_int l0)) (room_area p2)) (Fin (h_factor (room_height p2))),
        lumens_avg := pf_mul (pf_mul (Fin (of_int l1)) (room_area p2)) (Fin (h_factor (room_height p2))),
        lumens_max := pf_mul (pf_mul (Fin (of_int l2)) (room_area p2)) (Fin (h_factor (room_height p2))),
        temp_min := t0, temp_avg := t1, temp_max := t2\<rparr>" by blast
  from p2 area have a2: "room_area p2 = Fin a" by simp
  have hf: "0 \<le> h_factor (room_height p2)" using h_factor_ge_1 [of "room_height p2"] by simp
  from lux_table_ordered [OF lux] have "real_of_int l0 \<le> real_of_int l1" "real_of_int l1 \<le> real_of_int l2"
    by simp_all
  then have "real_of_int l0 * a * h_factor (room_height p2) \<le> real_of_int l1 * a * h_factor (room_height p2)"
    "real_of_int l1 * a * h_factor (room_height p2) \<le> real_of_int l2 * a * h_factor (room_height p2)"
    using area(2) hf by (simp_all add: mult_right_mono)
  with temp_k_table_ordered [OF temp] show ?thesis by (simp add: p2 a2)
qed

lemma h_factor_one_upto: "height \<le> 10 / (328 / 100) \<Longrightarrow> h_factor height = 1"
  by (rule h_factor_low) (simp add: field_simps)

lemma bbox_cube_nan:
  "bounding_box_area_xy eig_diagonal bbox_props (example_scene bbox_props) = NaN"
  by (simp add: bbox_defs scene_defs bbox_props_def)

lemma calc_room_lumens_eq:
  assumes "context_object s = Some ob" "active_material (objects s ob) = Some m"
    and "area_block (linalg_eig h) s (emission_props (materials s m)) = Some p1"
    and "outputs_block (height_block s p1) = Inr p3"
  shows "calc_room_lumens h s = Returned FINISHED [] (put_props m p3 s)"
  using assms by (simp add: calc_room_lumens_def)

lemma nan_area_block:
  "area_block (linalg_eig example_host) (example_scene bbox_props) bbox_props
     = Some (bbox_props\<lparr>room_area := NaN\<rparr>)"
proof -
  have "linalg_eig example_host = eig_diagonal" by (simp add: example_host_def)
  moreover have "room_area_source bbox_props = BOUNDING_BOX" by (simp add: bbox_props_def)
  ultimately show ?thesis by (simp add: area_block_def bbox_cube_nan set_room_area_def)
qed

lemma nan_height_block:
  "height_block s (bbox_props\<lparr>room_area := NaN\<rparr>) = bbox_props\<lparr>room_area := NaN\<rparr>"
  by (simp add: height_block_def bbox_props_def default_props_def)

lemma nan_outputs_block:
  "outputs_block (bbox_props\<lparr>room_area := NaN\<rparr>)
     = Inr (bbox_props\<lparr>room_area := NaN, lumens_min := NaN, lumens_avg := NaN, lumens_max := NaN,
              temp_min := 2700, temp_avg := 3000, temp_max := 3500\<rparr>)"
  by (simp add: outputs_block_def dict_get_def lux_table_def temp_k_table_def bbox_props_def
      default_props_def)

lemma nan_room_run:
  "calc_room_lumens example_host (example_scene bbox_props) =
     Returned FINISHED []
       (put_props 0 (bbox_props\<lparr>room_area := NaN, lumens_min := NaN, lumens_avg := NaN,
                       lumens_max := NaN, temp_min := 2700, temp_avg := 3000, temp_max := 3500\<rparr>)
          (example_scene bbox_props))"
proof -
  have a: "area_block (linalg_eig example_host) (example_scene bbox_props)
             (emission_props (materials (example_scene bbox_props) 0))
           = Some (bbox_props\<lparr>room_area := NaN\<rparr>)"
    by (simp only: example_scene_props nan_area_block)
  have o: "outputs_block (height_block (example_scene bbox_props) (bbox_props\<lparr>room_area := NaN\<rparr>))
           = Inr (bbox_props\<lparr>room_area := NaN, lumens_min := NaN, lumens_avg := NaN,
                    lumens_max := NaN, temp_min := 2700, temp_avg := 3000, temp_max := 3500\<rparr>)"
    by (simp only: nan_height_block nan_outputs_block)
  show ?thesis
    by (rule calc_room_lumens_eq [OF example_scene_object example_scene_material a o])
qed

text \<open>
  C10. With the default cube as active object, no wall set and the room area taken from
  the bounding box, \<^verbatim>\<open>calc_room_lumens\<close> returns FINISHED with \<^verbatim>\<open>nan\<close> in
  room_area and in the three lumens outputs: the \<^verbatim>\<open>nan\<close> area of C5 is not
  \<^verbatim>\<open><= 0\<close>, so the guard lets it through, and the outputs are not ordered. The
  lemmas above give the rest of the claim: the temperatures are always ordered, the
  height factor is at least 1 and is 1 up to 10/3.28 m, and the lumens are ordered
  whenever the room area is a number.
\<close>

theorem nan_area_unordered_lumens:
  "status_of (calc_room_lumens example_host (example_scene bbox_props)) = Some FINISHED
   \<and> room_area (emission_props (materials
        (scene_after (calc_room_lumens example_host (example_scene bbox_props))) 0)) = NaN
   \<and> lumens_min (emission_props (materials
        (scene_after (calc_room_lumens example_host (example_scene bbox_props))) 0)) = NaN
   \<and> lumens_avg (emission_props (materials
        (scene_after (calc_room_lumens example_host (example_scene bbox_props))) 0)) = NaN
   \<and> \<not> pf_le (lumens_min (emission_props (materials
          (scene_after (calc_room_lumens example_host (example_scene bbox_props))) 0)))
        (lumens_avg (emission_props (materials
          (scene_after (calc_room_lumens example_host (example_scene bbox_props))) 0)))"
  by (simp add: nan_room_run status_of_def scene_after_def)

lemma py_div_twice:
  "py_div x l = Inr q \<Longrightarrow> py_div q (Fin b) = Inr r \<Longrightarrow> py_div x (pf_mul l (Fin b)) = Inr r"
  by (cases x; cases q; cases l) (auto split: if_splits)

lemma get_active_material_area_pos:
  "0 < get_active_material_area (Some ob')
   \<Longrightarrow> obj_type ob' = MESH
     \<and> get_active_material_area (Some ob')
         = sum_list (map calc_area
             (filter (\<lambda>f. material_index f = active_material_index ob') (faces (obj_data ob'))))"
  by (auto simp: get_active_material_area_def split: if_splits)

lemma apply_object_scale_Inr:
  "apply_object_scale h ob s = Inr c
   \<Longrightarrow> select_all_poll h s
     \<and> (\<exists>ob'. transform_apply h (objects s ob) = Inr ob' \<and> objects c = (objects s)(ob := ob'))
     \<and> materials c = materials s \<and> context_object c = context_object s
     \<and> selected_objects c = insert ob (selected_objects s)
     \<and> active_object c = active_object s"
  by (auto simp: apply_object_scale_def Let_def split: if_splits sum.splits)

lemma apply_object_scale_Inl:
  "apply_object_scale h ob s = Inl (e, c)
   \<Longrightarrow> materials c = materials s \<and> context_object c = context_object s
     \<and> objects c = objects s"
  by (auto simp: apply_object_scale_def Let_def split: if_splits sum.splits)

lemma apply_object_scale_Some:
  "scale_applied h s ob = Some ob'
   \<Longrightarrow> apply_object_scale h ob s =
         Inr (s\<lparr>selected_objects := insert ob (selected_objects s),
                objects := (objects s)(ob := ob')\<rparr>)"
  by (auto simp: apply_object_scale_def scale_applied_def Let_def split: sum.splits if_splits)


lemma emission_target_Some:
  "emission_target s = Some (ob, m) \<longleftrightarrow>
     context_object s = Some ob \<and> obj_type (objects s ob) = MESH
     \<and> active_material (objects s ob) = Some m"
  by (auto simp: emission_target_def split: option.splits)


lemma py_div_defined: "pf_at_least 1 l \<Longrightarrow> \<exists>q. py_div x l = Inr q"
  by (cases x; cases l) simp_all

lemma py_div_defined_Fin: "b \<noteq> 0 \<Longrightarrow> \<exists>q. py_div x (Fin b) = Inr q"
  by (cases x) simp_all




lemma calc_emission_strength_finishes:
  assumes t: "emission_target s = Some (ob, m)" and a: "scale_applied h s ob = Some ob'"
    and pos: "0 < emission_area ob' (emission_props (materials s m))"
    and ok: "props_ok (emission_props (materials s m))"
  shows "\<exists>v c. calc_emission_strength h s = Returned FINISHED [(INFO, Strength_set v)] c"
proof -
  let ?p = "emission_props (materials s m)"
  from ok have l: "pf_at_least 1 (ler ?p)" and n: "1 \<le> num_lights ?p"
    by (simp_all add: props_ok_def)
  from py_div_defined [OF l] obtain q where q: "py_div (lumens ?p) (ler ?p) = Inr q" by blast
  from pos n have "emission_area ob' ?p * of_int (num_lights ?p) \<noteq> 0" by simp
  from py_div_defined_Fin [OF this] obtain v where
    v: "py_div q (Fin (emission_area ob' ?p * of_int (num_lights ?p))) = Inr v" by blast
  from t pos q v apply_object_scale_Some [OF a] show ?thesis
    by (auto simp: emission_target_Some calc_emission_strength_def emission_area_def Let_def
        simp del: py_div.simps)
qed

lemma calc_emission_strength_FINISHED_D:
  assumes run: "calc_emission_strength h s = Returned FINISHED rs s'"
    and ob: "context_object s = Some ob"
    and m: "active_material (objects s ob) = Some m"
  shows "obj_type (objects s ob) = MESH
       \<and> (\<exists>ob' q v. transform_apply h (objects s ob) = Inr ob' \<and> objects s' ob = ob'
              \<and> 0 < emission_area ob' (emission_props (materials s m))
              \<and> py_div (lumens (emission_props (materials s m)))
                    (ler (emission_props (materials s m))) = Inr q
              \<and> py_div q (Fin (emission_area ob' (emission_props (materials s m))
                               * of_int (num_lights (emission_props (materials s m))))) = Inr v
              \<and> rs = [(INFO, Strength_set v)]
              \<and> strength (emission_props (materials s' m)) = v)"
  using run ob m
  by (auto simp: calc_emission_strength_def emission_area_def Let_def put_material_def
      simp del: py_div.simps dest!: apply_object_scale_Inr split: if_splits sum.splits prod.splits)

text \<open>
  C1. Every run of \<^verbatim>\<open>calc_emission_strength\<close> that returns FINISHED had a mesh
  object with an active material, and the host's \<^verbatim>\<open>transform_apply\<close> gave the
  object with its scale applied, the one the operator measures and leaves in the scene.
  With \<^verbatim>\<open>auto_area\<close> on, that object is a mesh, the sum of the areas of its faces
  whose material index is the active one is positive, and the stored strength is the
  quotient of lumens by ler times that sum times num_lights. With \<^verbatim>\<open>auto_area\<close>
  off, the manual \<^verbatim>\<open>area\<close> is positive and takes the place of the sum. The witness
  is a shade with two material slots, three lights and a scale of 2, with the area
  measured and with the manual area.
\<close>

theorem calc_emission_strength_value:
  assumes run: "calc_emission_strength h s = Returned FINISHED rs s'"
    and ob: "context_object s = Some ob"
    and m: "active_material (objects s ob) = Some m"
  shows "obj_type (objects s ob) = MESH
       \<and> (\<exists>ob'. transform_apply h (objects s ob) = Inr ob' \<and> objects s' ob = ob'
            \<and> (if auto_area (emission_props (materials s m))
                then obj_type ob' = MESH
                  \<and> 0 < sum_list (map calc_area
                          (filter (\<lambda>f. material_index f = active_material_index ob')
                             (faces (obj_data ob'))))
                  \<and> py_div (lumens (emission_props (materials s m)))
                       (pf_mul (ler (emission_props (materials s m)))
                          (Fin (sum_list (map calc_area
                                  (filter (\<lambda>f. material_index f = active_material_index ob')
                                     (faces (obj_data ob'))))
                                * of_int (num_lights (emission_props (materials s m))))))
                     = Inr (strength (emission_props (materials s' m)))
                else 0 < area (emission_props (materials s m))
                  \<and> py_div (lumens (emission_props (materials s m)))
                       (pf_mul (ler (emission_props (materials s m)))
                          (Fin (area (emission_props (materials s m))
                                * of_int (num_lights (emission_props (materials s m))))))
                     = Inr (strength (emission_props (materials s' m)))))"
proof -
  let ?p = "emission_props (materials s m)"
  from calc_emission_strength_FINISHED_D [OF run ob m] obtain ob' q v where
    mesh: "obj_type (objects s ob) = MESH"
    and t: "transform_apply h (objects s ob) = Inr ob'" "objects s' ob = ob'"
    and pos: "0 < emission_area ob' ?p"
    and q: "py_div (lumens ?p) (ler ?p) = Inr q"
    and v: "py_div q (Fin (emission_area ob' ?p * of_int (num_lights ?p))) = Inr v"
    and st: "strength (emission_props (materials s' m)) = v"
    by blast
  from py_div_twice [OF q v] st have d:
    "py_div (lumens ?p) (pf_mul (ler ?p) (Fin (emission_area ob' ?p * of_int (num_lights ?p))))
       = Inr (strength (emission_props (materials s' m)))" by simp
  show ?thesis
  proof (cases "auto_area ?p")
    case True
    with pos have "0 < get_active_material_area (Some ob')" by (simp add: emission_area_def)
    from get_active_material_area_pos [OF this] True d pos mesh t show ?thesis
      by (auto simp: emission_area_def)
  next
    case False
    with d pos mesh t show ?thesis by (auto simp: emission_area_def)
  qed
qed


lemma shade_target: "emission_target (shade_scene p) = Some (0, 0)"
  by (simp add: emission_target_def shade_scene_def example_scene_def shade_def)

lemma shade_props: "emission_props (materials (shade_scene p) k) = p"
  by (simp add: shade_scene_def example_scene_def)

lemma shade_object: "objects (shade_scene p) 0 = shade"
  by (simp add: shade_scene_def)

lemma shade_scaled: "scale_applied scaling_host (shade_scene p) 0 = Some (scale_areas shade)"
  by (simp add: scale_applied_def scaling_host_def example_host_def shade_object)

lemma shade_area:
  "sum_list (map calc_area (filter (\<lambda>f. material_index f = active_material_index (scale_areas shade))
      (faces (obj_data (scale_areas shade))))) = 20"
  by (simp add: scale_areas_def shade_def)

theorem calc_emission_strength_value_witness:
  "strength (emission_props (materials
      (scene_after (calc_emission_strength scaling_host (shade_scene three_lights))) 0))
     = Fin (850 / (300 * (20 * 3)))
   \<and> strength (emission_props (materials
      (scene_after (calc_emission_strength scaling_host (shade_scene three_lights_manual))) 0))
     = Fin (850 / (300 * (1 / 2 * 3)))"
proof -
  have ob: "context_object (shade_scene p) = Some 0"
    and m: "active_material (objects (shade_scene p) 0) = Some 0" for p
    using shade_target [of p] by (simp_all add: emission_target_Some)
  have t: "transform_apply scaling_host (objects (shade_scene p) 0) = Inr (scale_areas shade)" for p
    by (simp add: scaling_host_def shade_object)
  have ok1: "props_ok three_lights" and ok2: "props_ok three_lights_manual"
    by (simp_all add: props_ok_def three_lights_def three_lights_manual_def default_props_def)
  have a1: "emission_area (scale_areas shade) three_lights = 20"
    by (simp add: emission_area_def get_active_material_area_def three_lights_def
        default_props_def scale_areas_def shade_def)
  have a2: "emission_area (scale_areas shade) three_lights_manual = 1 / 2"
    by (simp add: emission_area_def three_lights_manual_def)
  from calc_emission_strength_finishes [OF shade_target shade_scaled, of three_lights] ok1 a1
  obtain v1 c1 where run1:
    "calc_emission_strength scaling_host (shade_scene three_lights)
       = Returned FINISHED [(INFO, Strength_set v1)] c1"
    by (auto simp: shade_props)
  from calc_emission_strength_finishes [OF shade_target shade_scaled, of three_lights_manual] ok2 a2
  obtain v2 c2 where run2:
    "calc_emission_strength scaling_host (shade_scene three_lights_manual)
       = Returned FINISHED [(INFO, Strength_set v2)] c2"
    by (auto simp: shade_props)
  have auto1: "auto_area three_lights" "lumens three_lights = Fin 850"
    "ler three_lights = Fin 300" "num_lights three_lights = 3"
    by (simp_all add: three_lights_def default_props_def)
  have man2: "\<not> auto_area three_lights_manual" "lumens three_lights_manual = Fin 850"
    "ler three_lights_manual = Fin 300" "num_lights three_lights_manual = 3"
    "area three_lights_manual = 1 / 2"
    by (simp_all add: three_lights_manual_def default_props_def)
  from calc_emission_strength_value [OF run1 ob m]
  have s1: "strength (emission_props (materials c1 0)) = Fin (850 / (300 * (20 * 3)))"
    by (simp add: shade_props t auto1 shade_area)
  from calc_emission_strength_value [OF run2 ob m]
  have s2: "strength (emission_props (materials c2 0)) = Fin (850 / (300 * (1 / 2 * 3)))"
    by (simp add: shade_props t man2)
  from s1 s2 show ?thesis by (simp add: run1 run2 scene_after_def)
qed






lemma area_block_room_area:
  "area_block eig s p = Some p1
   \<Longrightarrow> room_area p1 =
        (if room_area_source p = BOUNDING_BOX
         then (case bounding_box_area_xy eig p s of Fin a \<Rightarrow> Fin (max 1 a) | NaN \<Rightarrow> NaN)
         else room_area p)"
  by (auto simp: area_block_def set_room_area_def clamp_min_def max_def Let_def
      split: if_splits pyfloat.splits)


lemma area_block_height:
  "area_block eig s p = Some p1
   \<Longrightarrow> height_source p1 = height_source p \<and> height_object p1 = height_object p
       \<and> room_height p1 = room_height p"
  by (auto simp: area_block_def set_room_area_def Let_def split: if_splits)

lemma height_block_room_area [simp]: "room_area (height_block s p) = room_area p"
  by (simp add: height_block_def set_room_height_def Let_def)

lemma height_block_room_height:
  "room_height (height_block s p) =
     (if height_source p = FROM_OBJECT \<and> height_object p \<noteq> None
         \<and> 0 < object_height (map_option (objects s) (height_object p))
      then max (1 / 2) (object_height (map_option (objects s) (height_object p)))
      else room_height p)"
  by (cases "height_object p")
     (simp_all add: height_block_def set_room_height_def clamp_min_def Let_def max_def)


lemma calc_room_lumens_finishes:
  assumes "context_object s = Some ob" "active_material (objects s ob) = Some m"
    and "area_block (linalg_eig h) s (emission_props (materials s m)) = Some p1"
  shows "\<exists>p3. outputs_block (height_block s p1) = Inr p3
            \<and> calc_room_lumens h s = Returned FINISHED [] (put_props m p3 s)"
  using assms outputs_block_total [of "height_block s p1"]
  by (auto simp: calc_room_lumens_def)


text \<open>
  C2. After every run of \<^verbatim>\<open>calc_room_lumens\<close> that returns FINISHED, the room
  area is the bounding-box area (raised to the declared minimum 1 when smaller) if that
  is the area source and the old room area otherwise; the room height is the measured
  extent of the height object (raised to the declared minimum 0.5) if the height comes
  from a set object of positive extent and the old room height otherwise; and
  lumens_avg is the room type's average lux times this room area times the height
  factor 1 + 0.05 * max(0, height * 3.28 - 10), lumens_min and lumens_max its minimum
  and maximum lux times the same area and factor. The witness is a room 4 m high on a
  floor of 12 square metres taken from the bounding box.
\<close>

theorem calc_room_lumens_formula:
  assumes run: "calc_room_lumens h s = Returned FINISHED rs s'"
    and ob: "context_object s = Some ob"
    and m: "active_material (objects s ob) = Some m"
  shows "\<exists>lux_min lux_avg lux_max.
           map_of lux_table (room_type (emission_props (materials s m)))
             = Some (lux_min, lux_avg, lux_max)
         \<and> room_area (emission_props (materials s' m)) =
             (if room_area_source (emission_props (materials s m)) = BOUNDING_BOX
              then (case bounding_box_area_xy (linalg_eig h) (emission_props (materials s m)) s of
                      Fin a \<Rightarrow> Fin (max 1 a) | NaN \<Rightarrow> NaN)
              else room_area (emission_props (materials s m)))
         \<and> room_height (emission_props (materials s' m)) =
             (if height_source (emission_props (materials s m)) = FROM_OBJECT
                 \<and> height_object (emission_props (materials s m)) \<noteq> None
                 \<and> 0 < object_height (map_option (objects s)
                          (height_object (emission_props (materials s m))))
              then max (1 / 2) (object_height (map_option (objects s)
                          (height_object (emission_props (materials s m)))))
              else room_height (emission_props (materials s m)))
         \<and> lumens_avg (emission_props (materials s' m))
             = pf_mul (pf_mul (Fin (of_int lux_avg)) (room_area (emission_props (materials s' m))))
                 (Fin (1 + 5 / 100
                    * max 0 (room_height (emission_props (materials s' m)) * (328 / 100) - 10)))
         \<and> lumens_min (emission_props (materials s' m))
             = pf_mul (pf_mul (Fin (of_int lux_min)) (room_area (emission_props (materials s' m))))
                 (Fin (1 + 5 / 100
                    * max 0 (room_height (emission_props (materials s' m)) * (328 / 100) - 10)))
         \<and> lumens_max (emission_props (materials s' m))
             = pf_mul (pf_mul (Fin (of_int lux_max)) (room_area (emission_props (materials s' m))))
                 (Fin (1 + 5 / 100
                    * max 0 (room_height (emission_props (materials s' m)) * (328 / 100) - 10)))"
proof -
  let ?p = "emission_props (materials s m)"
  obtain l0 l1 l2 where lux: "map_of lux_table (room_type ?p) = Some (l0, l1, l2)"
    using lux_table_total by blast
  obtain t0 t1 t2 where temp: "map_of temp_k_table (room_type ?p) = Some (t0, t1, t2)"
    using temp_k_table_total by blast
  from calc_room_lumens_FINISHED_D [OF run ob m] obtain p1 p3 where
    a: "area_block (linalg_eig h) s ?p = Some p1"
    and o: "outputs_block (height_block s p1) = Inr p3"
    and s': "s' = put_props m p3 s" by blast
  have rt: "room_type (height_block s p1) = room_type ?p"
    using area_block_room_type [OF a] by simp
  from o lux temp rt have p3: "p3 = (height_block s p1)
     \<lparr>lumens_min := pf_mul (pf_mul (Fin (of_int l0)) (room_area (height_block s p1)))
                       (Fin (h_factor (room_height (height_block s p1)))),
      lumens_avg := pf_mul (pf_mul (Fin (of_int l1)) (room_area (height_block s p1)))
                       (Fin (h_factor (room_height (height_block s p1)))),
      lumens_max := pf_mul (pf_mul (Fin (of_int l2)) (room_area (height_block s p1)))
                       (Fin (h_factor (room_height (height_block s p1)))),
      temp_min := t0, temp_avg := t1, temp_max := t2\<rparr>"
    by (simp add: outputs_block_eq)
  have area: "room_area p3 =
      (if room_area_source ?p = BOUNDING_BOX
       then (case bounding_box_area_xy (linalg_eig h) ?p s of Fin a \<Rightarrow> Fin (max 1 a) | NaN \<Rightarrow> NaN)
       else room_area ?p)"
    using area_block_room_area [OF a] by (simp add: p3)
  have height: "room_height p3 =
      (if height_source ?p = FROM_OBJECT \<and> height_object ?p \<noteq> None
          \<and> 0 < object_height (map_option (objects s) (height_object ?p))
       then max (1 / 2) (object_height (map_option (objects s) (height_object ?p)))
       else room_height ?p)"
  proof -
    from area_block_height [OF a] have e: "height_source p1 = height_source ?p"
      "height_object p1 = height_object ?p" "room_height p1 = room_height ?p" by simp_all
    have "room_height p3 = room_height (height_block s p1)" by (simp add: p3)
    also note height_block_room_height [of s p1]
    finally show ?thesis by (simp only: e)
  qed
  have lum: "lumens_min p3 = pf_mul (pf_mul (Fin (of_int l0)) (room_area p3))
                (Fin (1 + 5 / 100 * max 0 (room_height p3 * (328 / 100) - 10)))"
    "lumens_avg p3 = pf_mul (pf_mul (Fin (of_int l1)) (room_area p3))
                (Fin (1 + 5 / 100 * max 0 (room_height p3 * (328 / 100) - 10)))"
    "lumens_max p3 = pf_mul (pf_mul (Fin (of_int l2)) (room_area p3))
                (Fin (1 + 5 / 100 * max 0 (room_height p3 * (328 / 100) - 10)))"
    by (simp_all add: p3 h_factor_def)
  from lux area height lum show ?thesis
    unfolding s' put_props_simps by blast
qed

lemma floor_room_area:
  "bounding_box_area_xy (linalg_eig example_host) floor_room (example_scene floor_room) = Fin 12"
  by (simp add: bbox_defs scene_defs floor_room_def py_max_def py_min_def)

theorem calc_room_lumens_formula_witness:
  "room_area (emission_props (materials
      (scene_after (calc_room_lumens example_host (example_scene floor_room))) 0)) = Fin 12
   \<and> room_height (emission_props (materials
      (scene_after (calc_room_lumens example_host (example_scene floor_room))) 0)) = 4
   \<and> lumens_min (emission_props (materials
      (scene_after (calc_room_lumens example_host (example_scene floor_room))) 0)) = Fin (6936 / 5)
   \<and> lumens_avg (emission_props (materials
      (scene_after (calc_room_lumens example_host (example_scene floor_room))) 0)) = Fin (10404 / 5)
   \<and> lumens_max (emission_props (materials
      (scene_after (calc_room_lumens example_host (example_scene floor_room))) 0)) = Fin (13872 / 5)"
proof -
  have f: "room_area_source floor_room = BOUNDING_BOX" "height_source floor_room = HEIGHT_MANUAL"
    "room_height floor_room = 4" "room_type floor_room = living_gen"
    by (simp_all add: floor_room_def default_props_def)
  have a: "area_block (linalg_eig example_host) (example_scene floor_room)
             (emission_props (materials (example_scene floor_room) 0))
           = Some (set_room_area (Fin 12) floor_room)"
    by (simp add: example_scene_props area_block_def f floor_room_area)
  from calc_room_lumens_finishes [OF example_scene_object example_scene_material a]
  obtain p3 where run: "calc_room_lumens example_host (example_scene floor_room)
      = Returned FINISHED [] (put_props 0 p3 (example_scene floor_room))" by blast
  from calc_room_lumens_formula [OF run example_scene_object example_scene_material]
  obtain lux_min lux_avg lux_max where
    t: "map_of lux_table living_gen = Some (lux_min, lux_avg, lux_max)"
    and r: "room_area p3 = Fin 12" "room_height p3 = 4"
    and l: "lumens_avg p3 = pf_mul (pf_mul (Fin (of_int lux_avg)) (room_area p3))
                 (Fin (1 + 5 / 100 * max 0 (room_height p3 * (328 / 100) - 10)))"
      "lumens_min p3 = pf_mul (pf_mul (Fin (of_int lux_min)) (room_area p3))
                 (Fin (1 + 5 / 100 * max 0 (room_height p3 * (328 / 100) - 10)))"
      "lumens_max p3 = pf_mul (pf_mul (Fin (of_int lux_max)) (room_area p3))
                 (Fin (1 + 5 / 100 * max 0 (room_height p3 * (328 / 100) - 10)))"
    by (auto simp: example_scene_props f floor_room_area)
  from t have "lux_min = 100 \<and> lux_avg = 150 \<and> lux_max = 200" by (simp add: lux_table_def)
  with l r show ?thesis by (simp add: run scene_after_def)
qed












text \<open>The guard of the area block on an area that is a number at most 0.\<close>

lemma bounding_box_guard_cancels:
  assumes ob: "context_object s = Some ob"
    and m: "active_material (objects s ob) = Some m"
    and src: "room_area_source (emission_props (materials s m)) = BOUNDING_BOX"
    and bad: "pf_le (bounding_box_area_xy (linalg_eig h) (emission_props (materials s m)) s) (Fin 0)"
  shows "calc_room_lumens h s = Returned CANCELLED [(WARNING, Text ''Invalid bounding box area'')] s"
  using ob m src bad by (simp add: calc_room_lumens_def area_block_def Let_def)

text \<open>
  C9. With the default cube as active object, no wall set and the room area taken from
  the bounding box, the computed area is \<^verbatim>\<open>nan\<close> (C5), which is not positive;
  \<^verbatim>\<open>calc_room_lumens\<close> does not cancel but returns FINISHED, and room_area goes from
  20 to \<^verbatim>\<open>nan\<close> and temp_avg from 0 to 3000. The guard tests \<^verbatim>\<open>area <= 0\<close>,
  False on \<^verbatim>\<open>nan\<close>. For an area that is a number at most 0 the claim holds: the
  lemma above.
\<close>

theorem nan_area_not_cancelled:
  "room_area_source (emission_props (materials (example_scene bbox_props) 0)) = BOUNDING_BOX
   \<and> bounding_box_area_xy (linalg_eig example_host) bbox_props (example_scene bbox_props) = NaN
   \<and> \<not> pf_gt (bounding_box_area_xy (linalg_eig example_host) bbox_props
             (example_scene bbox_props)) (Fin 0)
   \<and> status_of (calc_room_lumens example_host (example_scene bbox_props)) = Some FINISHED
   \<and> room_area (emission_props (materials (example_scene bbox_props) 0)) = Fin 20
   \<and> room_area (emission_props (materials
        (scene_after (calc_room_lumens example_host (example_scene bbox_props))) 0)) = NaN
   \<and> temp_avg (emission_props (materials (example_scene bbox_props) 0)) = 0
   \<and> temp_avg (emission_props (materials
        (scene_after (calc_room_lumens example_host (example_scene bbox_props))) 0)) = 3000"
proof -
  have e: "linalg_eig example_host = eig_diagonal" by (simp add: example_host_def)
  have p: "room_area_source bbox_props = BOUNDING_BOX" "room_area bbox_props = Fin 20"
    "temp_avg bbox_props = 0"
    by (simp_all add: bbox_props_def default_props_def)
  show ?thesis
    by (simp add: e bbox_cube_nan nan_room_run status_of_def scene_after_def example_scene_props p)
qed

lemma preset_float:
  "p \<noteq> CUSTOM \<Longrightarrow> \<exists>v. py_float (ler_preset_str p) = Inr v \<and> 50 \<le> v"
  by (cases p) (simp_all add: py_float_def is_digit_def digits_val_def digit_val_def)

lemma update_ler_from_preset_value:
  assumes "ler_preset self \<noteq> CUSTOM"
  shows "\<exists>v. py_float (ler_preset_str (ler_preset self)) = Inr v \<and> 1 \<le> v
             \<and> update_ler_from_preset self = Inr (self\<lparr>ler := Fin v\<rparr>)"
proof -
  from preset_float [OF assms] obtain v where
    "py_float (ler_preset_str (ler_preset self)) = Inr v" "50 \<le> v" by blast
  with assms show ?thesis
    by (intro exI [of _ v]) (simp add: update_ler_from_preset_def set_ler_def clamp_min_def)
qed

lemma update_ler_from_preset_custom:
  "ler_preset self = CUSTOM \<Longrightarrow> update_ler_from_preset self = Inr self"
  by (simp add: update_ler_from_preset_def)

lemma ler_put_material:
  "ler (emission_props (materials (put_material m mat s) k)) =
     (if k = m then ler (emission_props mat) else ler (emission_props (materials s k)))"
  by (simp add: put_material_def)

lemma ler_put_props:
  "ler (emission_props (materials (put_props m p s) k)) =
     (if k = m then ler p else ler (emission_props (materials s k)))"
  by (simp add: put_props_def put_material_def)

lemma ler_area_block: "area_block eig s p = Some p1 \<Longrightarrow> ler p1 = ler p"
  by (auto simp: area_block_def set_room_area_def Let_def split: if_splits)

lemma ler_height_block [simp]: "ler (height_block s p) = ler p"
  by (simp add: height_block_def set_room_height_def Let_def)

lemma ler_outputs_block: "outputs_block p = Inr p' \<Longrightarrow> ler p' = ler p"
  using lux_table_total [of "room_type p"] temp_k_table_total [of "room_type p"]
  by (auto simp: outputs_block_eq)

lemma ler_outputs_block_raise: "outputs_block p \<noteq> Inl e"
  using outputs_block_total [of p] by auto

lemma ler_calc_room_lumens:
  "ler (emission_props (materials (scene_after (calc_room_lumens h s)) k))
     = ler (emission_props (materials s k))"
proof (cases "calc_room_lumens h s")
  case (Raised e s')
  then show ?thesis
    by (auto simp: calc_room_lumens_def scene_after_def Let_def ler_outputs_block_raise
        split: option.splits sum.splits)
next
  case (Returned st rs s')
  show ?thesis
  proof (cases st)
    case CANCELLED
    with Returned show ?thesis
      by (auto simp: calc_room_lumens_def scene_after_def Let_def
          split: option.splits sum.splits)
  next
    case FINISHED
    with Returned obtain ob m where ob: "context_object s = Some ob"
      and m: "active_material (objects s ob) = Some m"
      by (auto simp: calc_room_lumens_def split: option.splits)
    from calc_room_lumens_FINISHED_D [OF Returned [unfolded FINISHED] ob m] obtain p1 p3 where
      a: "area_block (linalg_eig h) s (emission_props (materials s m)) = Some p1"
      and o: "outputs_block (height_block s p1) = Inr p3"
      and s': "s' = put_props m p3 s" by blast
    from ler_area_block [OF a] ler_outputs_block [OF o] s' Returned show ?thesis
      by (simp add: scene_after_def ler_put_props)
  qed
qed

lemma ler_use_lumens:
  "ler (emission_props (materials (scene_after (use_lumens mode s)) k))
     = ler (emission_props (materials s k))"
  by (auto simp: use_lumens_def scene_after_def ler_put_props set_lumens_def Let_def
      split: option.splits sum.splits)

lemma ler_calc_emission_strength:
  "ler (emission_props (materials (scene_after (calc_emission_strength h s)) k))
     = ler (emission_props (materials s k))"
proof (cases "emission_target s")
  case None
  then show ?thesis
    by (auto simp: emission_target_def calc_emission_strength_def scene_after_def
        split: option.splits if_splits)
next
  case (Some t)
  obtain ob m where "t = (ob, m)" by (cases t)
  with Some have tg: "context_object s = Some ob" "obj_type (objects s ob) = MESH"
    "active_material (objects s ob) = Some m" by (simp_all add: emission_target_Some)
  show ?thesis
  proof (cases "apply_object_scale h ob s")
    case (Inl ec)
    obtain e c where "ec = (e, c)" by (cases ec)
    with Inl have i: "apply_object_scale h ob s = Inl (e, c)" by simp
    from apply_object_scale_Inl [OF i] tg i show ?thesis
      by (simp add: calc_emission_strength_def scene_after_def)
  next
    case (Inr c)
    from apply_object_scale_Inr [OF Inr] have "materials c = materials s" by simp
    with tg Inr show ?thesis
      by (auto simp: calc_emission_strength_def scene_after_def ler_put_material Let_def
          simp del: py_div.simps split: sum.splits)
  qed
qed

lemma props_apply_temperature:
  "emission_props (materials (scene_after (apply_temperature h mode s)) k)
     = emission_props (materials s k)"
  by (auto simp: apply_temperature_def scene_after_def put_material_def Let_def
      split: option.splits sum.splits)

lemma props_make_it_lamp:
  "emission_props (materials (scene_after (make_it_lamp h s)) k)
     = emission_props (materials s k)"
  by (auto simp: make_it_lamp_def scene_after_def put_material_def enable_nodes_def Let_def
      split: option.splits)

lemma ler_update_height [simp]: "ler (update_height_from_object s p) = ler p"
  by (simp add: update_height_from_object_def set_room_height_def Let_def)


lemma ler_ok_step: "ler_ok s \<Longrightarrow> \<not> nan_edit a \<Longrightarrow> ler_ok (step h a s)"
proof (cases a)
  case (Edit_ler m v)
  then show "ler_ok s \<Longrightarrow> \<not> nan_edit a \<Longrightarrow> ler_ok (step h a s)"
    by (cases v) (simp_all add: ler_put_props set_ler_def clamp_min_def)
next
  case (Edit_ler_preset m p)
  show "ler_ok s \<Longrightarrow> \<not> nan_edit a \<Longrightarrow> ler_ok (step h a s)"
  proof (cases "p = CUSTOM")
    case True
    with Edit_ler_preset show "ler_ok s \<Longrightarrow> \<not> nan_edit a \<Longrightarrow> ler_ok (step h a s)"
      by (simp add: ler_put_props update_ler_from_preset_custom)
  next
    case False
    from update_ler_from_preset_value [of "(emission_props (materials s m))\<lparr>ler_preset := p\<rparr>"] False
    obtain v where "1 \<le> v"
      "update_ler_from_preset ((emission_props (materials s m))\<lparr>ler_preset := p\<rparr>)
         = Inr ((emission_props (materials s m))\<lparr>ler_preset := p, ler := Fin v\<rparr>)"
      by auto
    with Edit_ler_preset show "ler_ok s \<Longrightarrow> \<not> nan_edit a \<Longrightarrow> ler_ok (step h a s)"
      by (simp add: ler_put_props)
  qed
next
  case (Edit_height_object m ho)
  then show "ler_ok s \<Longrightarrow> \<not> nan_edit a \<Longrightarrow> ler_ok (step h a s)"
    by (simp add: ler_put_props)
next
  case Run_make_it_lamp
  then show "ler_ok s \<Longrightarrow> \<not> nan_edit a \<Longrightarrow> ler_ok (step h a s)"
    by (simp add: props_make_it_lamp)
next
  case Run_calc_room_lumens
  then show "ler_ok s \<Longrightarrow> \<not> nan_edit a \<Longrightarrow> ler_ok (step h a s)"
    by (simp add: ler_calc_room_lumens)
next
  case (Run_use_lumens mode)
  then show "ler_ok s \<Longrightarrow> \<not> nan_edit a \<Longrightarrow> ler_ok (step h a s)"
    by (simp add: ler_use_lumens)
next
  case (Run_apply_temperature mode)
  then show "ler_ok s \<Longrightarrow> \<not> nan_edit a \<Longrightarrow> ler_ok (step h a s)"
    by (simp add: props_apply_temperature)
next
  case Run_calc_emission_strength
  then show "ler_ok s \<Longrightarrow> \<not> nan_edit a \<Longrightarrow> ler_ok (step h a s)"
    by (simp add: ler_calc_emission_strength)
qed

lemma ler_ok_fold:
  "ler_ok s \<Longrightarrow> list_all (\<lambda>a. \<not> nan_edit a) acts \<Longrightarrow> ler_ok (fold (step h) acts s)"
proof (induction acts arbitrary: s)
  case Nil
  then show ?case by simp
next
  case (Cons a acts)
  from Cons.prems have "ler_ok (step h a s)" by (intro ler_ok_step) simp_all
  with Cons show ?case by simp
qed

lemma step_edit_ler:
  "ler (emission_props (materials (step h (Edit_ler m v) s) m)) =
     (case v of Fin x \<Rightarrow> Fin (max 1 x) | NaN \<Rightarrow> NaN)"
  by (cases v) (simp_all add: set_ler_def clamp_min_def max_def)

text \<open>
  C7, as amended. The preset update writes the number of the preset, which is at least
  1 (the smallest is 50), whenever the preset is not CUSTOM; an assignment of a number
  to ler stores the number raised to the declared minimum 1; an assignment of
  \<^verbatim>\<open>nan\<close> stores \<^verbatim>\<open>nan\<close>, which is not at least 1 (the counterexample); and
  every sequence of operations without such an assignment (edits of ler, choices of a
  preset or of a height object with their update callbacks, and the five operators)
  keeps ler at least 1 in every material.
\<close>

theorem ler_at_least_one:
  "(ler_preset self \<noteq> CUSTOM \<longrightarrow>
      (\<exists>v. py_float (ler_preset_str (ler_preset self)) = Inr v \<and> 1 \<le> v
           \<and> update_ler_from_preset self = Inr (self\<lparr>ler := Fin v\<rparr>)))
   \<and> ler (emission_props (materials (step h (Edit_ler m (Fin x)) s) m)) = Fin (max 1 x)
   \<and> ler (emission_props (materials (step h (Edit_ler m NaN) s) m)) = NaN
   \<and> (ler_ok s \<and> list_all (\<lambda>a. \<not> nan_edit a) acts \<longrightarrow> ler_ok (fold (step h) acts s))"
  using update_ler_from_preset_value [of self] ler_ok_fold [of s acts h]
    step_edit_ler [of h m "Fin x" s] step_edit_ler [of h m NaN s]
  by (simp del: step.simps)

theorem ler_at_least_one_counterexample:
  "ler (emission_props (materials (example_scene default_props) 0)) = Fin 300
   \<and> ler (emission_props (materials
        (step example_host (Edit_ler 0 NaN) (example_scene default_props)) 0)) = NaN
   \<and> \<not> pf_le (Fin 1) (ler (emission_props (materials
        (step example_host (Edit_ler 0 NaN) (example_scene default_props)) 0)))"
  using step_edit_ler [of example_host 0 NaN "example_scene default_props"]
  by (simp add: example_scene_props del: step.simps) (simp add: default_props_def)

theorem ler_at_least_one_witness:
  "ler_preset default_props \<noteq> CUSTOM
   \<and> update_ler_from_preset default_props = Inr (default_props\<lparr>ler := Fin 300\<rparr>)
   \<and> ler (emission_props (materials
        (step example_host (Edit_ler 0 (Fin 0)) (example_scene default_props)) 0)) = Fin 1
   \<and> ler_ok (example_scene default_props)
   \<and> ler_ok (fold (step example_host)
        [Edit_ler 0 (Fin 0), Edit_ler_preset 0 P50, Run_calc_room_lumens, Run_use_lumens MODE_AVG,
         Run_calc_emission_strength, Run_make_it_lamp, Run_apply_temperature MODE_MIN]
        (example_scene default_props))"
proof -
  have p: "ler_preset default_props \<noteq> CUSTOM" by (simp add: default_props_def)
  have ok: "ler_ok (example_scene default_props)"
    by (simp add: example_scene_props) (simp add: default_props_def)
  have f: "py_float (ler_preset_str (ler_preset default_props)) = Inr 300"
    by (simp add: default_props_def py_float_def is_digit_def digits_val_def digit_val_def)
  from ler_at_least_one [of default_props example_host 0 0 "example_scene default_props"
      "[Edit_ler 0 (Fin 0), Edit_ler_preset 0 P50, Run_calc_room_lumens, Run_use_lumens MODE_AVG,
        Run_calc_emission_strength, Run_make_it_lamp, Run_apply_temperature MODE_MIN]"] p ok f
  show ?thesis by (auto simp del: step.simps fold_simps)
qed

end
